theory Spec2Isabelle
  imports Complex_Main "HOL-Library.AList" "HOL-Library.Sublist" "HOL-Library.Multiset"
begin

section \<open>Python and library primitives used by main.py\<close>

subsection \<open>Errors\<close>

text \<open>
  \<open>ValueError\<close>: \<open>math.sqrt\<close> of a negative number and \<open>numpy.arange\<close> with a zero step
  (numpy cannot compute the length of the range and raises). The next three are the
  \<open>sys.exit(1)\<close> paths of \<open>extract_data\<close>, named after the message printed before the exit.
  \<open>MetadataReadError\<close> stands for any exception other than \<open>JSONDecodeError\<close> that opening,
  reading or decoding the metadata file raises (lines 126 and 127), and \<open>IndexBuildError\<close> for
  any exception that leaves the loop building the spatial index (lines 134 to 136): none of
  them is caught.
\<close>

datatype error =
    ValueError
  | InputFolderMissing
  | MetadataNotFound
  | MetadataInvalid
  | MetadataReadError
  | IndexBuildError

subsection \<open>JSON values and Python dictionaries\<close>

datatype json =
    JNull
  | JBool bool
  | JNumber real
  | JString string
  | JArray "json list"
  | JObject "(string \<times> json) list"

text \<open>
  A Python dictionary is an association list in insertion order. \<open>d[k] = v\<close> is
  \<open>AList.update k v d\<close>: an existing key keeps its place and takes the new value, a new key is
  appended. \<open>d.update(other)\<close> stores the items of \<open>other\<close> one after the other.
\<close>

definition dict_update :: "('k \<times> 'v) list \<Rightarrow> ('k \<times> 'v) list \<Rightarrow> ('k \<times> 'v) list" where
  "dict_update d other = fold (\<lambda>(k, v). AList.update k v) other d"

subsection \<open>Floating point\<close>

text \<open>
  Coordinates are binary64 floating point numbers (Python \<open>float\<close> and \<open>numpy.float64\<close>). A
  finite double is modelled by the real number it denotes, and an arithmetic operation by
  the exact operation followed by \<open>rnd\<close>, rounding to the nearest number with a significand of
  53 bits, a tie going to the even significand. The exponent is not bounded: overflow,
  subnormal numbers, infinities and NaN are outside the model. Comparisons, \<open>min\<close> and \<open>max\<close>
  are exact. The section on rounding below has the rules by which \<open>rnd\<close> is evaluated.
\<close>

definition round_half_even :: "real \<Rightarrow> int" where
  "round_half_even r =
     (let f = \<lfloor>r\<rfloor>; d = r - of_int f
      in if d < 1 / 2 then f else if 1 / 2 < d then f + 1 else if even f then f else f + 1)"

definition rnd :: "real \<Rightarrow> real" where
  "rnd x =
     (if x = 0 then 0
      else let ulp = 2 powr (of_int \<lfloor>log 2 \<bar>x\<bar>\<rfloor> - 52)
           in of_int (round_half_even (x / ulp)) * ulp)"

definition fadd :: "real \<Rightarrow> real \<Rightarrow> real" where
  "fadd a b = rnd (a + b)"

definition fsub :: "real \<Rightarrow> real \<Rightarrow> real" where
  "fsub a b = rnd (a - b)"

definition fmul :: "real \<Rightarrow> real \<Rightarrow> real" where
  "fmul a b = rnd (a * b)"

definition fdiv :: "real \<Rightarrow> real \<Rightarrow> real" where
  "fdiv a b = rnd (a / b)"

subsection \<open>math.sqrt and numpy.arange\<close>

definition math_sqrt :: "real \<Rightarrow> error + real" where
  "math_sqrt a = (if a < 0 then Inl ValueError else Inr (rnd (sqrt a)))"

text \<open>
  \<open>numpy.arange(start, stop, step)\<close> on doubles: the length is the ceiling of the double
  \<open>(stop - start) / step\<close> (no element when that is not positive). The first element is
  \<open>start\<close>, the second the double \<open>start + step\<close>; with \<open>delta\<close> the double difference of these
  two, the element of index \<open>i\<close> from 2 on is \<open>start + i * delta\<close>, the product and the sum being
  rounded in turn. So the last element can be greater than \<open>stop\<close>, as the documentation of
  numpy warns. With \<open>step = 0\<close> the quotient is infinite or undefined and numpy raises.
\<close>

definition arange :: "real \<Rightarrow> real \<Rightarrow> real \<Rightarrow> error + real list" where
  "arange start stop step =
     (if step = 0 then Inl ValueError
      else let n = nat \<lceil>fdiv (fsub stop start) step\<rceil>;
               second = fadd start step;
               delta = fsub second start
           in Inr (map (\<lambda>i. if i = 0 then start else if i = 1 then second
                              else fadd start (fmul (real i) delta))
                     [0..<n]))"

subsection \<open>Formatting with six decimals\<close>

text \<open>
  \<open>f"{x:.6f}"\<close> prints the sign, the integer part, a point and six decimals of \<open>x\<close>, rounded
  to the nearest millionth, a tie going to the even neighbour. A negative number that rounds
  to zero keeps its sign (\<open>-0.000000\<close>).
\<close>

definition digit :: "nat \<Rightarrow> char" where
  "digit d = ''0123456789'' ! d"

fun show_nat :: "nat \<Rightarrow> string" where
  "show_nat n = (if n < 10 then [digit n] else show_nat (n div 10) @ [digit (n mod 10)])"

declare show_nat.simps [simp del]

fun pad_digits :: "nat \<Rightarrow> nat \<Rightarrow> string" where
  "pad_digits 0 m = []"
| "pad_digits (Suc k) m = pad_digits k (m div 10) @ [digit (m mod 10)]"

text \<open>The number of millionths that \<open>x\<close> is rounded to, sign apart.\<close>

definition micro :: "real \<Rightarrow> nat" where
  "micro x = nat (round_half_even (\<bar>x\<bar> * 1000000))"

definition fmt6 :: "real \<Rightarrow> string" where
  "fmt6 x =
     (if x < 0 then ''-'' else '''') @ show_nat (micro x div 1000000) @ ''.'' @
     pad_digits 6 (micro x mod 1000000)"

subsection \<open>Geometries\<close>

text \<open>
  A shapely geometry is modelled by the set of points it occupies. \<open>box(minx, miny, maxx, maxy)\<close>
  is the closed rectangle with these corners, and \<open>a.intersects(b)\<close> holds when the two
  geometries share a point.
\<close>

type_synonym geometry = "(real \<times> real) set"

definition box :: "real \<Rightarrow> real \<Rightarrow> real \<Rightarrow> real \<Rightarrow> geometry" where
  "box minx miny maxx maxy =
     {(px, py). min minx maxx \<le> px \<and> px \<le> max minx maxx \<and> min miny maxy \<le> py \<and> py \<le> max miny maxy}"

definition intersects :: "geometry \<Rightarrow> geometry \<Rightarrow> bool" where
  "intersects a b = (a \<inter> b \<noteq> {})"

subsection \<open>Features and files\<close>

text \<open>
  A row of a GeoDataFrame has a geometry and a \<open>properties\<close> column. In a chunk file that
  column is a string holding a JSON document; it is represented by what lines 165 and 166
  (\<open>json.loads\<close>, then \<open>dict.update\<close>) make of it:
  \<^item> \<open>NotJSON\<close>: \<open>json.loads\<close> raises \<open>JSONDecodeError\<close>;
  \<^item> \<open>JSONObject kvs\<close>: the string is a JSON object with these members;
  \<^item> \<open>OtherException\<close>: an exception that is not a \<open>JSONDecodeError\<close> is raised, by
    \<open>json.loads\<close> (\<open>RecursionError\<close> for a document nested deeper than the recursion limit,
    \<open>ValueError\<close> for an integer literal with more digits than Python 3.11 converts,
    \<open>TypeError\<close> for a missing payload) or by \<open>update\<close> (\<open>TypeError\<close> for a JSON number,
    boolean or null).
  JSON arrays and strings as payloads are not modelled.
\<close>

datatype payload = NotJSON | JSONObject "(string \<times> json) list" | OtherException

record feature =
  geometry :: geometry
  properties :: payload

text \<open>
  A file is represented by what its readers make of it: \<open>GeoJSON rows\<close> is a feature
  collection that \<open>geopandas.read_file\<close> reads as \<open>rows\<close>; \<open>JSONDoc j\<close> is any other JSON
  document; \<open>Garbage\<close> is a text file on which \<open>json.load\<close> raises \<open>JSONDecodeError\<close>;
  \<open>Unreadable\<close> is a file on which opening, reading or decoding raises another exception
  (\<open>UnicodeDecodeError\<close> for bytes that are not text in the encoding of \<open>open\<close>,
  \<open>RecursionError\<close> for a document nested too deep). A folder lists its files in the order
  of \<open>os.listdir\<close>; writing a file replaces a file of the same name.
\<close>

datatype content = Garbage | Unreadable | JSONDoc json | GeoJSON "feature list"

type_synonym folder = "(string \<times> content) list"

section \<open>divide\_data\<close>

type_synonym rect = "real \<times> real \<times> real \<times> real"

definition box_of :: "rect \<Rightarrow> geometry" where
  "box_of r = (case r of (x0, y0, x1, y1) \<Rightarrow> box x0 y0 x1 y1)"

text \<open>
  Lines 63 to 71: the grid step and the grid origins along the two axes, or the exception
  raised on the way.
\<close>

definition grid :: "rect \<Rightarrow> error + real \<times> real list \<times> real list" where
  "grid bounds =
     (case bounds of (x_min, y_min, x_max, y_max) \<Rightarrow>
        (let area = fmul (fsub x_max x_min) (fsub y_max y_min);
             chunk_area = fdiv area 100
         in case math_sqrt chunk_area of
              Inl e \<Rightarrow> Inl e
            | Inr grid_size \<Rightarrow>
                (case arange x_min x_max grid_size of
                   Inl e \<Rightarrow> Inl e
                 | Inr x_ranges \<Rightarrow>
                     (case arange y_min y_max grid_size of
                        Inl e \<Rightarrow> Inl e
                      | Inr y_ranges \<Rightarrow> Inr (grid_size, x_ranges, y_ranges)))))"

text \<open>The rectangle of the cell with origin \<open>(x, y)\<close>, as lines 77 and 84 to 89 compute it.\<close>

definition cell_rect :: "real \<Rightarrow> real \<Rightarrow> real \<Rightarrow> real \<Rightarrow> real \<Rightarrow> rect" where
  "cell_rect grid_size x_max y_max x y =
     (x, y, min (fadd x grid_size) x_max, min (fadd y grid_size) y_max)"

definition chunk_name :: "string \<Rightarrow> real \<Rightarrow> real \<Rightarrow> string" where
  "chunk_name location x y = location @ ''_'' @ fmt6 x @ ''_'' @ fmt6 y @ ''.geojson''"

definition chunk_coords :: "rect \<Rightarrow> json" where
  "chunk_coords r =
     (case r of (x0, y0, x1, y1) \<Rightarrow>
        JObject [(''x_min'', JNumber x0), (''y_min'', JNumber y0),
                 (''x_max'', JNumber x1), (''y_max'', JNumber y1)])"

record dstate =
  files :: folder
  metadata :: "(string \<times> json) list"

text \<open>The body of the two nested loops (lines 77 to 89) for the grid origin \<open>(x, y)\<close>.\<close>

definition cell_step ::
  "feature list \<Rightarrow> string \<Rightarrow> real \<Rightarrow> real \<Rightarrow> real \<Rightarrow> real \<Rightarrow> real \<Rightarrow> dstate \<Rightarrow> dstate" where
  "cell_step gdf location grid_size x_max y_max x y st =
     (let cell = cell_rect grid_size x_max y_max x y;
          cell_gdf = filter (\<lambda>f. intersects (geometry f) (box_of cell)) gdf
      in if cell_gdf \<noteq> [] then
           st\<lparr>files := AList.update (chunk_name location x y) (GeoJSON cell_gdf) (files st),
              metadata := AList.update (chunk_name location x y) (chunk_coords cell) (metadata st)\<rparr>
         else st)"

text \<open>
  \<open>divide_data gdf output_folder location bounds\<close> returns the contents of the output folder
  after the call, or the exception that ends it. Nothing is written before the two ranges
  have been computed; the metadata file is written last.
\<close>

definition divide_data :: "feature list \<Rightarrow> folder \<Rightarrow> string \<Rightarrow> rect \<Rightarrow> error + folder" where
  "divide_data gdf output_folder location bounds =
     (case grid bounds of
        Inl e \<Rightarrow> Inl e
      | Inr (grid_size, x_ranges, y_ranges) \<Rightarrow>
          (let x_max = fst (snd (snd bounds));
               y_max = snd (snd (snd bounds));
               st = fold (\<lambda>x. fold (cell_step gdf location grid_size x_max y_max x) y_ranges)
                      x_ranges \<lparr>files = output_folder, metadata = []\<rparr>
           in Inr (AList.update (location @ ''_metadata.json'')
                     (JSONDoc (JObject (metadata st))) (files st))))"

section \<open>extract\_data\<close>

text \<open>
  An output feature is the dictionary built on lines 159 to 163; \<open>mapping(row.geometry)\<close>
  is represented by the geometry itself.
\<close>

record out_feature =
  ftype :: string
  props :: "(string \<times> json) list"
  geom :: geometry

text \<open>The lines printed by \<open>extract_data\<close> when it does not exit.\<close>

datatype message =
    FoundCandidates nat
  | FileNotFound string
  | ProcessingError string
  | PropertiesNotParsed
  | Extracted nat
  | NoBuildings

record estate =
  all_features :: "out_feature list"
  printed :: "message list"

text \<open>
  Lines 115 to 118. A corner is a pair \<open>(latitude, longitude)\<close>; the box is
  \<open>(x_min, y_min, x_max, y_max)\<close> with longitudes as x and latitudes as y.
\<close>

definition query_box :: "real \<times> real \<Rightarrow> real \<times> real \<Rightarrow> rect" where
  "query_box top_left bottom_right =
     (min (snd top_left) (snd bottom_right), min (fst top_left) (fst bottom_right),
      max (snd top_left) (snd bottom_right), max (fst top_left) (fst bottom_right))"

text \<open>
  Lines 120 to 130. Opening the file and \<open>json.load\<close> return the document or raise. A feature
  collection is a JSON document as well; of it only the member \<open>"type": "FeatureCollection"\<close>
  is kept, none of its members being a dictionary of coordinates. Of the exceptions only
  \<open>JSONDecodeError\<close> has a handler (line 128).
\<close>

datatype load_exception = JSONDecodeError | AnotherException

fun json_load :: "content \<Rightarrow> load_exception + json" where
  "json_load Garbage = Inl JSONDecodeError"
| "json_load Unreadable = Inl AnotherException"
| "json_load (JSONDoc j) = Inr j"
| "json_load (GeoJSON rows) = Inr (JObject [(''type'', JString ''FeatureCollection'')])"

definition load_metadata :: "folder \<Rightarrow> error + json" where
  "load_metadata input_folder =
     (case find (\<lambda>(f, c). suffix ''_metadata.json'' f) input_folder of
        None \<Rightarrow> Inl MetadataNotFound
      | Some (metadata_file, c) \<Rightarrow>
          (case json_load c of
             Inl JSONDecodeError \<Rightarrow> Inl MetadataInvalid
           | Inl AnotherException \<Rightarrow> Inl MetadataReadError
           | Inr md \<Rightarrow> Inr md))"

text \<open>
  Lines 133 to 136. A coordinate given to the index must be a number (a JSON boolean counts
  as 1 or 0), and \<open>rtree\<close> refuses a rectangle whose minimum exceeds its maximum.
  \<open>None\<close> stands for an exception.
\<close>

fun as_double :: "json \<Rightarrow> real option" where
  "as_double (JNumber r) = Some r"
| "as_double (JBool b) = Some (if b then 1 else 0)"
| "as_double _ = None"

fun coordinate :: "json \<Rightarrow> string \<Rightarrow> real option" where
  "coordinate (JObject kvs) k = (case map_of kvs k of None \<Rightarrow> None | Some v \<Rightarrow> as_double v)"
| "coordinate _ k = None"

definition index_entry :: "json \<Rightarrow> rect option" where
  "index_entry cc =
     (case coordinate cc ''x_min'' of None \<Rightarrow> None | Some x0 \<Rightarrow>
     (case coordinate cc ''y_min'' of None \<Rightarrow> None | Some y0 \<Rightarrow>
     (case coordinate cc ''x_max'' of None \<Rightarrow> None | Some x1 \<Rightarrow>
     (case coordinate cc ''y_max'' of None \<Rightarrow> None | Some y1 \<Rightarrow>
        if x0 \<le> x1 \<and> y0 \<le> y1 then Some (x0, y0, x1, y1) else None))))"

fun insert_all :: "(string \<times> json) list \<Rightarrow> (string \<times> rect) list option" where
  "insert_all [] = Some []"
| "insert_all ((filename, cc) # items) =
     (case index_entry cc of
        None \<Rightarrow> None
      | Some r \<Rightarrow> (case insert_all items of None \<Rightarrow> None | Some idx \<Rightarrow> Some ((filename, r) # idx)))"

text \<open>
  The index, as the list of the file names with their rectangles in the order of the
  metadata; the position in the list is the identifier \<open>i\<close> of the source.
\<close>

fun build_index :: "json \<Rightarrow> error + (string \<times> rect) list" where
  "build_index (JObject items) =
     (case insert_all items of None \<Rightarrow> Inl IndexBuildError | Some idx \<Rightarrow> Inr idx)"
| "build_index _ = Inl IndexBuildError"

text \<open>
  Lines 139 to 145. \<open>idx.intersection\<close> yields the entries whose rectangle shares a point
  with the query rectangle, here in the order of insertion. \<open>metadata[list(metadata.keys())[i]]\<close>
  is the i-th value of the dictionary, whose coordinates are the ones stored at \<open>i\<close>.
\<close>

definition rect_overlap :: "rect \<Rightarrow> rect \<Rightarrow> bool" where
  "rect_overlap r q =
     (case r of (a0, b0, a1, b1) \<Rightarrow> case q of (c0, d0, c1, d1) \<Rightarrow>
        a0 \<le> c1 \<and> c0 \<le> a1 \<and> b0 \<le> d1 \<and> d0 \<le> b1)"

definition intersecting_files :: "(string \<times> rect) list \<Rightarrow> rect \<Rightarrow> string list" where
  "intersecting_files idx bbox =
     map fst (filter (\<lambda>(filename, r). intersects (box_of bbox) (box_of r))
                (filter (\<lambda>(filename, r). rect_overlap r bbox) idx))"

text \<open>
  Lines 158 to 170: the loop over the rows of one chunk that intersect the query box.
  \<open>Inl st\<close> is an exception raised in state \<open>st\<close>, on its way to the handler of line 171.
\<close>

definition output_feature :: "(string \<times> json) list \<Rightarrow> geometry \<Rightarrow> out_feature" where
  "output_feature properties_dict g =
     \<lparr>ftype = ''Feature'',
      props = dict_update [(''type'', JString ''Feature'')] properties_dict,
      geom = g\<rparr>"

fun iterrows :: "feature list \<Rightarrow> estate \<Rightarrow> estate + estate" where
  "iterrows [] st = Inr st"
| "iterrows (row # rows) st =
     (case properties row of
        NotJSON \<Rightarrow> iterrows rows (st\<lparr>printed := printed st @ [PropertiesNotParsed]\<rparr>)
      | OtherException \<Rightarrow> Inl st
      | JSONObject properties_dict \<Rightarrow>
          iterrows rows
            (st\<lparr>all_features := all_features st @ [output_feature properties_dict (geometry row)]\<rparr>))"

text \<open>
  \<open>geopandas.read_file\<close> raises on a file that is not a feature collection.
\<close>

fun read_file :: "content \<Rightarrow> feature list option" where
  "read_file (GeoJSON rows) = Some rows"
| "read_file _ = None"

text \<open>Lines 151 to 173: one round of the loop over the candidate files.\<close>

definition process_file :: "folder \<Rightarrow> rect \<Rightarrow> string \<Rightarrow> estate \<Rightarrow> estate" where
  "process_file input_folder bbox filename st =
     (case map_of input_folder filename of
        None \<Rightarrow> st\<lparr>printed := printed st @ [FileNotFound filename]\<rparr>
      | Some c \<Rightarrow>
          (case read_file c of
             None \<Rightarrow> st\<lparr>printed := printed st @ [ProcessingError filename]\<rparr>
           | Some gdf \<Rightarrow>
               (case iterrows (filter (\<lambda>f. intersects (geometry f) (box_of bbox)) gdf) st of
                  Inl st' \<Rightarrow> st'\<lparr>printed := printed st' @ [ProcessingError filename]\<rparr>
                | Inr st' \<Rightarrow> st')))"

text \<open>
  \<open>extract_data\<close>: the input folder is \<open>None\<close> when the directory does not exist. The result
  is the list \<open>all_features\<close>, which line 181 writes to the output file when it is not empty,
  with the lines printed. The question asked when the output file exists only chooses the
  path of that file and is left out.
\<close>

definition extract_data :: "folder option \<Rightarrow> real \<times> real \<Rightarrow> real \<times> real \<Rightarrow> error + estate" where
  "extract_data input_folder top_left bottom_right =
     (case input_folder of
        None \<Rightarrow> Inl InputFolderMissing
      | Some dir \<Rightarrow>
          (let bbox = query_box top_left bottom_right
           in (case load_metadata dir of
                 Inl e \<Rightarrow> Inl e
               | Inr md \<Rightarrow>
                   (case build_index md of
                      Inl e \<Rightarrow> Inl e
                    | Inr idx \<Rightarrow>
                        (let intersecting = intersecting_files idx bbox;
                             st = fold (process_file dir bbox) intersecting
                                    \<lparr>all_features = [], printed = [FoundCandidates (length intersecting)]\<rparr>
                         in Inr (st\<lparr>printed := printed st @
                                   [if all_features st \<noteq> [] then Extracted (length (all_features st))
                                    else NoBuildings]\<rparr>))))))"

section \<open>What the extraction loops compute\<close>

text \<open>
  The loops of \<open>extract_data\<close> described by their results, for the proofs below. The rows of a
  chunk are processed up to the first row that raises; a row with a JSON object as payload
  gives one output feature, a row whose payload is not JSON gives one warning.
\<close>

definition rows_kept :: "feature list \<Rightarrow> feature list" where
  "rows_kept rows = takeWhile (\<lambda>row. properties row \<noteq> OtherException) rows"

definition row_features :: "feature \<Rightarrow> out_feature list" where
  "row_features row =
     (case properties row of
        JSONObject properties_dict \<Rightarrow> [output_feature properties_dict (geometry row)]
      | _ \<Rightarrow> [])"

definition row_messages :: "feature \<Rightarrow> message list" where
  "row_messages row = (case properties row of NotJSON \<Rightarrow> [PropertiesNotParsed] | _ \<Rightarrow> [])"

definition file_features :: "folder \<Rightarrow> rect \<Rightarrow> string \<Rightarrow> out_feature list" where
  "file_features input_folder bbox filename =
     (case map_of input_folder filename of
        None \<Rightarrow> []
      | Some c \<Rightarrow>
          (case read_file c of
             None \<Rightarrow> []
           | Some gdf \<Rightarrow>
               concat (map row_features
                 (rows_kept (filter (\<lambda>f. intersects (geometry f) (box_of bbox)) gdf)))))"

definition file_messages :: "folder \<Rightarrow> rect \<Rightarrow> string \<Rightarrow> message list" where
  "file_messages input_folder bbox filename =
     (case map_of input_folder filename of
        None \<Rightarrow> [FileNotFound filename]
      | Some c \<Rightarrow>
          (case read_file c of
             None \<Rightarrow> [ProcessingError filename]
           | Some gdf \<Rightarrow>
               (let rows = filter (\<lambda>f. intersects (geometry f) (box_of bbox)) gdf
                in concat (map row_messages (rows_kept rows)) @
                   (if \<exists>row \<in> set rows. properties row = OtherException
                    then [ProcessingError filename] else []))))"

text \<open>The state in which \<open>extract_data\<close> ends for the candidate files \<open>filenames\<close>.\<close>

definition extraction :: "folder \<Rightarrow> rect \<Rightarrow> string list \<Rightarrow> estate" where
  "extraction input_folder bbox filenames =
     (let found = concat (map (file_features input_folder bbox) filenames)
      in \<lparr>all_features = found,
          printed = FoundCandidates (length filenames) #
            concat (map (file_messages input_folder bbox) filenames) @
            [if found \<noteq> [] then Extracted (length found) else NoBuildings]\<rparr>)"

section \<open>A small folder for the examples\<close>

text \<open>
  A metadata file that lists two chunks, of which only \<open>a.geojson\<close> is in the folder. That
  chunk has a row with a JSON object as payload, a row whose payload is not JSON, and a row
  whose payload has a member \<open>type\<close> of its own.
\<close>

definition example_rows :: "feature list" where
  "example_rows =
     [\<lparr>geometry = {(1 / 2, 1 / 2)}, properties = JSONObject [(''height'', JNumber 3)]\<rparr>,
      \<lparr>geometry = {(1 / 4, 1 / 4)}, properties = NotJSON\<rparr>,
      \<lparr>geometry = {(3 / 4, 3 / 4)}, properties = JSONObject [(''type'', JString ''Building'')]\<rparr>]"

definition example_folder :: folder where
  "example_folder =
     [(''x_metadata.json'',
       JSONDoc (JObject [(''a.geojson'', chunk_coords (0, 0, 1, 1)),
                         (''b.geojson'', chunk_coords (1, 0, 2, 1))])),
      (''a.geojson'', GeoJSON example_rows)]"

text \<open>
  A chunk of three rows, the second with a payload on which \<open>json.loads\<close> raises an exception
  that is not a \<open>JSONDecodeError\<close> (for instance the string of 100000 opening brackets, which
  raises \<open>RecursionError\<close>).
\<close>

definition deep_rows :: "feature list" where
  "deep_rows =
     [\<lparr>geometry = {(1 / 4, 1 / 4)}, properties = JSONObject [(''height'', JNumber 3)]\<rparr>,
      \<lparr>geometry = {(1 / 2, 1 / 2)}, properties = OtherException\<rparr>,
      \<lparr>geometry = {(3 / 4, 3 / 4)}, properties = JSONObject [(''height'', JNumber 5)]\<rparr>]"

definition deep_folder :: folder where
  "deep_folder =
     [(''x_metadata.json'', JSONDoc (JObject [(''a.geojson'', chunk_coords (0, 0, 1, 1))])),
      (''a.geojson'', GeoJSON deep_rows)]"

section \<open>What the partitioning loops write\<close>

text \<open>The features of a cell, and the rows of all the chunk files of a folder.\<close>

definition cell_features :: "feature list \<Rightarrow> rect \<Rightarrow> feature list" where
  "cell_features gdf cell = filter (\<lambda>f. intersects (geometry f) (box_of cell)) gdf"

definition stored_rows :: "folder \<Rightarrow> feature list" where
  "stored_rows dir =
     concat (map (\<lambda>(filename, c). case read_file c of None \<Rightarrow> [] | Some rows \<Rightarrow> rows) dir)"

text \<open>The output feature that a row with a JSON object as payload gives.\<close>

definition output_of :: "feature \<Rightarrow> out_feature" where
  "output_of row =
     output_feature (case properties row of JSONObject properties_dict \<Rightarrow> properties_dict | _ \<Rightarrow> [])
       (geometry row)"

section \<open>The bounding box of a collection\<close>

text \<open>
  \<open>GeoDataFrame.total_bounds\<close>, which \<open>download_and_process_data\<close> passes to \<open>divide_data\<close> as
  \<open>bounds\<close> (lines 51 and 54): the least and the greatest coordinates of the geometries. The
  definition is for geometries that are finite sets of points, as in the collections below.
\<close>

definition total_bounds :: "feature list \<Rightarrow> rect" where
  "total_bounds gdf =
     (let points = \<Union> (set (map geometry gdf))
      in (Min (fst ` points), Min (snd ` points), Max (fst ` points), Max (snd ` points)))"

section \<open>Three small collections\<close>

text \<open>
  Two point features less than half a millionth of a degree apart. All coordinates are
  multiples of \<open>1 / 67108864\<close>, which is 2 to the power -26, so that the arithmetic of the grid
  is exact.
\<close>

definition tiny_gdf :: "feature list" where
  "tiny_gdf =
     [\<lparr>geometry = {(0, 0)}, properties = JSONObject [(''height'', JNumber 3)]\<rparr>,
      \<lparr>geometry = {(25 / 67108864, 1 / 16777216)}, properties = JSONObject [(''height'', JNumber 4)]\<rparr>]"

text \<open>
  Two point features at \<open>(-1.1, 0)\<close> and \<open>(-0.9, 5)\<close>; a coordinate is the double that its
  decimal denotes.
\<close>

definition over_gdf :: "feature list" where
  "over_gdf =
     [\<lparr>geometry = {(rnd (- (11 / 10)), 0)}, properties = JSONObject [(''height'', JNumber 3)]\<rparr>,
      \<lparr>geometry = {(rnd (- (9 / 10)), 5)}, properties = JSONObject [(''height'', JNumber 4)]\<rparr>]"

text \<open>
  Three point features: two at the corners \<open>(-0.5, 0)\<close> and \<open>(0, 9)\<close>, and one at the double
  \<open>-0.07573593128807145\<close>, which is \<open>- 5457348990840257 / 72057594037927936\<close>, and \<open>1\<close>.
\<close>

definition gap_gdf :: "feature list" where
  "gap_gdf =
     [\<lparr>geometry = {(- (1 / 2), 0)}, properties = JSONObject [(''height'', JNumber 3)]\<rparr>,
      \<lparr>geometry = {(0, 9)}, properties = JSONObject [(''height'', JNumber 4)]\<rparr>,
      \<lparr>geometry = {(- (5457348990840257 / 72057594037927936), 1)},
       properties = JSONObject [(''height'', JNumber 5)]\<rparr>]"


section \<open>Rounding\<close>

lemma rnd_zero: "rnd 0 = 0"
  by (simp add: rnd_def)

lemma floor_log2_eq:
  assumes "2 powr of_int k \<le> \<bar>x\<bar>" and "\<bar>x\<bar> < 2 powr (of_int k + 1)"
  shows "\<lfloor>log 2 \<bar>x\<bar>\<rfloor> = k"
proof (rule floor_unique)
  have "(0::real) < 2 powr of_int k" by simp
  from this assms(1) have pos: "0 < \<bar>x\<bar>" by (rule less_le_trans)
  show "of_int k \<le> log 2 \<bar>x\<bar>" using assms(1) pos by (simp add: le_log_iff)
  show "log 2 \<bar>x\<bar> < of_int k + 1" using assms(2) pos by (simp add: log_less_iff)
qed

lemma round_half_even_unique:
  assumes "\<bar>r - of_int m\<bar> < 1 / 2"
  shows "round_half_even r = m"
proof -
  have "\<lfloor>r\<rfloor> = m \<or> \<lfloor>r\<rfloor> = m - 1" using assms by linarith
  then show ?thesis
  proof
    assume f: "\<lfloor>r\<rfloor> = m"
    then have "r - of_int m < 1 / 2" using assms by linarith
    with f show ?thesis by (simp add: round_half_even_def Let_def)
  next
    assume f: "\<lfloor>r\<rfloor> = m - 1"
    from assms have "of_int m - 1 / 2 < r" by linarith
    then have "1 / 2 < r - of_int (m - 1)" by simp
    with f show ?thesis by (simp add: round_half_even_def Let_def)
  qed
qed

lemma round_half_even_tie:
  assumes "r = of_int m + 1 / 2 \<or> r = of_int m - 1 / 2" and "even m"
  shows "round_half_even r = m"
  using assms(1)
proof
  assume r: "r = of_int m + 1 / 2"
  then have "\<lfloor>r\<rfloor> = m" by linarith
  with r assms(2) show ?thesis by (simp add: round_half_even_def Let_def)
next
  assume r: "r = of_int m - 1 / 2"
  then have f: "\<lfloor>r\<rfloor> = m - 1" by linarith
  with r have "r - of_int \<lfloor>r\<rfloor> = 1 / 2" by simp
  with f assms(2) show ?thesis by (simp add: round_half_even_def Let_def)
qed

lemma rnd_eval:
  assumes "2 powr (of_int e + 52) \<le> \<bar>x\<bar>" and "\<bar>x\<bar> < 2 powr (of_int e + 53)"
    and "round_half_even (x / 2 powr of_int e) = m"
  shows "rnd x = of_int m * 2 powr of_int e"
proof -
  have "\<lfloor>log 2 \<bar>x\<bar>\<rfloor> = e + 52"
    by (rule floor_log2_eq) (use assms(1,2) in \<open>simp_all add: algebra_simps\<close>)
  moreover have "x \<noteq> 0"
  proof
    assume "x = 0"
    with assms(1) have "2 powr (of_int e + 52) \<le> (0::real)" by simp
    then show False by (simp add: not_le)
  qed
  ultimately have "rnd x = of_int (round_half_even (x / 2 powr of_int e)) * 2 powr of_int e"
    by (simp add: rnd_def Let_def)
  with assms(3) show ?thesis by simp
qed

lemma rnd_scaled:
  fixes m :: int and k :: nat
  assumes "2 ^ 52 \<le> \<bar>x * 2 ^ k\<bar>" and "\<bar>x * 2 ^ k\<bar> < 2 ^ 53"
    and "round_half_even (x * 2 ^ k) = m"
  shows "rnd x = of_int m / 2 ^ k"
proof -
  have p: "(2::real) powr (- real k) = 1 / 2 ^ k"
    by (simp add: powr_minus powr_realpow inverse_eq_divide)
  have e1: "(2::real) powr (of_int (- int k) + 52) = 2 ^ 52 / 2 ^ k"
    using powr_add [of 2 "- real k" 52] by (simp add: p)
  have e2: "(2::real) powr (of_int (- int k) + 53) = 2 ^ 53 / 2 ^ k"
    using powr_add [of 2 "- real k" 53] by (simp add: p)
  have a: "\<bar>x\<bar> = \<bar>x * 2 ^ k\<bar> / 2 ^ k" by (simp add: abs_mult)
  have 1: "2 powr (of_int (- int k) + 52) \<le> \<bar>x\<bar>"
    unfolding e1 by (subst a) (use assms(1) in \<open>simp add: divide_right_mono\<close>)
  have 2: "\<bar>x\<bar> < 2 powr (of_int (- int k) + 53)"
    unfolding e2 by (subst a) (use assms(2) in \<open>simp add: divide_strict_right_mono\<close>)
  have 3: "round_half_even (x / 2 powr of_int (- int k)) = m"
    using assms(3) by (simp add: p)
  from rnd_eval [OF 1 2 3] show ?thesis by (simp add: p)
qed

lemma rnd_near:
  fixes m :: int and k :: nat
  assumes "2 ^ 52 \<le> \<bar>x * 2 ^ k\<bar>" and "\<bar>x * 2 ^ k\<bar> < 2 ^ 53"
    and "\<bar>x * 2 ^ k - of_int m\<bar> < 1 / 2"
  shows "rnd x = of_int m / 2 ^ k"
  using assms(1,2) round_half_even_unique [OF assms(3)] by (rule rnd_scaled)

lemma rnd_tie:
  fixes m :: int and k :: nat
  assumes "2 ^ 52 \<le> \<bar>x * 2 ^ k\<bar>" and "\<bar>x * 2 ^ k\<bar> < 2 ^ 53"
    and "x * 2 ^ k = of_int m + 1 / 2 \<or> x * 2 ^ k = of_int m - 1 / 2" and "even m"
  shows "rnd x = of_int m / 2 ^ k"
  using assms(1,2) round_half_even_tie [OF assms(3,4)] by (rule rnd_scaled)

lemma rnd_repr:
  fixes m :: int and k :: nat
  assumes "2 ^ 52 \<le> \<bar>m\<bar>" and "\<bar>m\<bar> < 2 ^ 53"
  shows "rnd (of_int m / 2 ^ k) = of_int m / 2 ^ k"
proof (rule rnd_near)
  have a: "\<bar>real_of_int m / 2 ^ k * 2 ^ k\<bar> = real_of_int \<bar>m\<bar>" by simp
  from assms(1) have "real_of_int (2 ^ 52) \<le> real_of_int \<bar>m\<bar>" by (simp only: of_int_le_iff)
  then show "2 ^ 52 \<le> \<bar>real_of_int m / 2 ^ k * 2 ^ k\<bar>" unfolding a by simp
  from assms(2) have "real_of_int \<bar>m\<bar> < real_of_int (2 ^ 53)" by (simp only: of_int_less_iff)
  then show "\<bar>real_of_int m / 2 ^ k * 2 ^ k\<bar> < 2 ^ 53" unfolding a by simp
  show "\<bar>real_of_int m / 2 ^ k * 2 ^ k - real_of_int m\<bar> < 1 / 2" by simp
qed

lemma rnd_sqrt_near:
  fixes m :: int and k :: nat
  assumes "0 < m"
    and "2 ^ 104 \<le> c * 4 ^ k" and "c * 4 ^ k < 2 ^ 106"
    and "(of_int m - 1 / 2)\<^sup>2 < c * 4 ^ k" and "c * 4 ^ k < (of_int m + 1 / 2)\<^sup>2"
  shows "rnd (sqrt c) = of_int m / 2 ^ k"
proof (rule rnd_near)
  have s: "sqrt c * 2 ^ k = sqrt (c * 4 ^ k)"
  proof -
    have "sqrt (c * 4 ^ k) = sqrt c * sqrt ((2 ^ k)\<^sup>2)"
      by (simp add: real_sqrt_mult power_even_eq power2_eq_square flip: power_mult_distrib)
    then show ?thesis by simp
  qed
  have nn: "0 \<le> sqrt (c * 4 ^ k)" using assms(2) by simp
  have "sqrt ((2 ^ 52)\<^sup>2) \<le> sqrt (c * 4 ^ k)"
    using assms(2) by (simp only: real_sqrt_le_iff) simp
  then show "2 ^ 52 \<le> \<bar>sqrt c * 2 ^ k\<bar>" unfolding s by simp
  have "sqrt (c * 4 ^ k) < sqrt ((2 ^ 53)\<^sup>2)"
    using assms(3) by (simp only: real_sqrt_less_iff) simp
  then show "\<bar>sqrt c * 2 ^ k\<bar> < 2 ^ 53" unfolding s using nn by simp
  from assms(1) have "1 \<le> real_of_int m" by simp
  then have "0 \<le> real_of_int m - 1 / 2" by simp
  then have lo: "real_of_int m - 1 / 2 < sqrt (c * 4 ^ k)"
    using assms(4) by (simp add: real_less_rsqrt)
  have hi: "sqrt (c * 4 ^ k) < real_of_int m + 1 / 2"
    using assms(1,5) by (intro real_less_lsqrt) simp_all
  from lo hi show "\<bar>sqrt c * 2 ^ k - real_of_int m\<bar> < 1 / 2" unfolding s by linarith
qed


section \<open>Degenerate bounding boxes\<close>

text \<open>
  C1 (the code departs from it). The claim: for a bounding box of zero width or zero height,
  partitioning detects the zero area and produces exactly one chunk instead of failing.
  What \<open>divide_data\<close> does: the area is 0, so \<open>grid_size\<close> is \<open>sqrt 0 = 0\<close>, and the first call
  \<open>np.arange(x_min, x_max, 0)\<close> raises \<open>ValueError\<close>. No chunk and no metadata file is written.
\<close>

theorem divide_data_degenerate_raises:
  assumes "x_max = x_min \<or> y_max = y_min"
  shows "divide_data gdf output_folder location (x_min, y_min, x_max, y_max) = Inl ValueError"
  using assms
  by (auto simp: divide_data_def grid_def math_sqrt_def arange_def fsub_def fmul_def fdiv_def rnd_def)

theorem divide_data_single_point_raises:
  "divide_data [\<lparr>geometry = {(3, 4)}, properties = JSONObject []\<rparr>] [] ''Monaco'' (3, 4, 3, 4)
     = Inl ValueError"
  using divide_data_degenerate_raises [of 3 3 4 4] by simp

section \<open>The query box\<close>

text \<open>
  C7. Two corner points, each a pair (latitude, longitude), are turned into the box
  \<open>(x_min, y_min, x_max, y_max)\<close> with \<open>x_min \<le> x_max\<close> and \<open>y_min \<le> y_max\<close> before anything is
  tested against it. The box is the same for the two corners in either order and for the
  two corners of the other diagonal, so \<open>extract_data\<close> returns the same result when its two
  corner arguments are swapped.
\<close>

theorem query_box_normalizes_corners:
  "(case query_box p q of (x_min, y_min, x_max, y_max) \<Rightarrow> x_min \<le> x_max \<and> y_min \<le> y_max)
   \<and> query_box p q = (min (snd p) (snd q), min (fst p) (fst q), max (snd p) (snd q), max (fst p) (fst q))
   \<and> query_box q p = query_box p q
   \<and> query_box (fst p, snd q) (fst q, snd p) = query_box p q
   \<and> extract_data input_folder q p = extract_data input_folder p q"
proof -
  have swap: "query_box q p = query_box p q"
    by (simp add: query_box_def min.commute max.commute)
  have "extract_data input_folder q p = extract_data input_folder p q"
    unfolding extract_data_def swap ..
  moreover have "min a b \<le> max a b" for a b :: real
    by (simp add: min_def max_def)
  ultimately show ?thesis
    by (simp add: query_box_def min.commute max.commute)
qed

theorem query_box_normalizes_corners_witness:
  "query_box (1, 2) (3, 0) = (0, 1, 2, 3) \<and> query_box (3, 0) (1, 2) = (0, 1, 2, 3)
   \<and> query_box (1, 0) (3, 2) = (0, 1, 2, 3)
   \<and> extract_data None (3, 0) (1, 2) = extract_data None (1, 2) (3, 0)"
  using query_box_normalizes_corners [of "(1, 2)" "(3, 0)" None]
  by (simp add: query_box_def)

section \<open>The extraction loops\<close>

lemma iterrows_result:
  "iterrows rows st =
     (if \<exists>row \<in> set rows. properties row = OtherException then Inl else Inr)
       (st\<lparr>all_features := all_features st @ concat (map row_features (rows_kept rows)),
           printed := printed st @ concat (map row_messages (rows_kept rows))\<rparr>)"
proof (induction rows arbitrary: st)
  case Nil
  show ?case by (simp add: rows_kept_def)
next
  case (Cons row rows)
  show ?case
  proof (cases "properties row")
    case NotJSON
    then show ?thesis
      by (simp add: Cons.IH rows_kept_def row_features_def row_messages_def)
  next
    case (JSONObject kvs)
    then show ?thesis
      by (simp add: Cons.IH rows_kept_def row_features_def row_messages_def)
  next
    case OtherException
    then show ?thesis
      by (simp add: rows_kept_def)
  qed
qed

lemma process_file_result:
  "process_file input_folder bbox filename st =
     st\<lparr>all_features := all_features st @ file_features input_folder bbox filename,
        printed := printed st @ file_messages input_folder bbox filename\<rparr>"
  by (simp add: process_file_def file_features_def file_messages_def iterrows_result Let_def
           split: option.split)

lemma fold_process_file_result:
  "fold (process_file input_folder bbox) filenames st =
     st\<lparr>all_features := all_features st @ concat (map (file_features input_folder bbox) filenames),
        printed := printed st @ concat (map (file_messages input_folder bbox) filenames)\<rparr>"
  by (induction filenames arbitrary: st) (simp_all add: process_file_result)

lemma extract_data_result:
  "extract_data (Some dir) top_left bottom_right =
     (case load_metadata dir of
        Inl e \<Rightarrow> Inl e
      | Inr md \<Rightarrow>
          (case build_index md of
             Inl e \<Rightarrow> Inl e
           | Inr idx \<Rightarrow>
               Inr (extraction dir (query_box top_left bottom_right)
                      (intersecting_files idx (query_box top_left bottom_right)))))"
  by (simp add: extract_data_def extraction_def fold_process_file_result Let_def
           split: sum.split)

lemma intersects_box_box:
  "intersects (box a0 b0 a1 b1) (box c0 d0 c1 d1) \<longleftrightarrow>
     max (min a0 a1) (min c0 c1) \<le> min (max a0 a1) (max c0 c1) \<and>
     max (min b0 b1) (min d0 d1) \<le> min (max b0 b1) (max d0 d1)"
proof
  assume "intersects (box a0 b0 a1 b1) (box c0 d0 c1 d1)"
  then obtain px py where "(px, py) \<in> box a0 b0 a1 b1" "(px, py) \<in> box c0 d0 c1 d1"
    unfolding intersects_def by auto
  then show "max (min a0 a1) (min c0 c1) \<le> min (max a0 a1) (max c0 c1) \<and>
     max (min b0 b1) (min d0 d1) \<le> min (max b0 b1) (max d0 d1)"
    unfolding box_def by simp
next
  assume a: "max (min a0 a1) (min c0 c1) \<le> min (max a0 a1) (max c0 c1) \<and>
     max (min b0 b1) (min d0 d1) \<le> min (max b0 b1) (max d0 d1)"
  let ?p = "(max (min a0 a1) (min c0 c1), max (min b0 b1) (min d0 d1))"
  from a have "?p \<in> box a0 b0 a1 b1" "?p \<in> box c0 d0 c1 d1"
    unfolding box_def by simp_all
  then show "intersects (box a0 b0 a1 b1) (box c0 d0 c1 d1)"
    unfolding intersects_def by blast
qed

lemma intersects_insert:
  "intersects (insert (px, py) g) (box a0 b0 a1 b1) \<longleftrightarrow>
     (min a0 a1 \<le> px \<and> px \<le> max a0 a1 \<and> min b0 b1 \<le> py \<and> py \<le> max b0 b1)
     \<or> intersects g (box a0 b0 a1 b1)"
  unfolding intersects_def box_def by auto

lemma intersects_empty: "\<not> intersects {} b"
  by (simp add: intersects_def)

section \<open>Loading the metadata\<close>

lemma find_first:
  "\<forall>x \<in> set pre. \<not> P x \<Longrightarrow> P y \<Longrightarrow> find P (pre @ y # post) = Some y"
  by (induction pre) simp_all

lemma find_SomeD: "find P xs = Some x \<Longrightarrow> P x \<and> x \<in> set xs"
  by (induction xs) (auto split: if_splits)

text \<open>
  C2 (counterexample). The claim: a load validates that every value is a well-ordered
  bounding box and fails rather than return malformed bounds. Here the metadata file gives a
  chunk \<open>x_min = 8\<close> and \<open>x_max = 7\<close>; the load (lines 120 to 130) returns the document as it
  is.
\<close>

theorem load_metadata_returns_ill_ordered_bounds:
  "load_metadata
     [(''Monaco_metadata.json'',
       JSONDoc (JObject [(''Monaco_7.000000_43.000000.geojson'', chunk_coords (8, 43, 7, 44))]))]
   = Inr (JObject [(''Monaco_7.000000_43.000000.geojson'',
            JObject [(''x_min'', JNumber 8), (''y_min'', JNumber 43),
                     (''x_max'', JNumber 7), (''y_max'', JNumber 44)])])"
  by (simp add: load_metadata_def suffix_to_prefix chunk_coords_def)

text \<open>
  C2 (amended). The load fails with the message "Metadata file not found" exactly when no
  file name of the folder ends with \<open>_metadata.json\<close>. Otherwise the first such file of the
  listing decides: when it is a text on which \<open>json.load\<close> raises \<open>JSONDecodeError\<close> the load
  fails with "Invalid metadata file", and when it is a JSON document the load returns that
  document unchanged, whatever it holds. Bounds are not validated by the load.
\<close>

theorem load_metadata_outcomes:
  "(load_metadata dir = Inl MetadataNotFound \<longleftrightarrow>
      (\<forall>f \<in> set (map fst dir). \<not> suffix ''_metadata.json'' f))
   \<and> (\<forall>pre f c post.
        dir = pre @ (f, c) # post \<and> suffix ''_metadata.json'' f \<and>
        (\<forall>g \<in> set (map fst pre). \<not> suffix ''_metadata.json'' g) \<longrightarrow>
        (c = Garbage \<longrightarrow> load_metadata dir = Inl MetadataInvalid) \<and>
        (\<forall>j. c = JSONDoc j \<longrightarrow> load_metadata dir = Inr j))"
proof (intro conjI allI impI)
  let ?P = "\<lambda>(f, c). suffix ''_metadata.json'' (f :: string)"
  show "load_metadata dir = Inl MetadataNotFound \<longleftrightarrow>
      (\<forall>f \<in> set (map fst dir). \<not> suffix ''_metadata.json'' f)"
  proof (cases "find ?P dir")
    case None
    then have "\<forall>f \<in> set (map fst dir). \<not> suffix ''_metadata.json'' f"
      by (auto simp: find_None_iff)
    with None show ?thesis by (simp add: load_metadata_def)
  next
    case (Some fc)
    then obtain f c where fc: "fc = (f, c)" "(f, c) \<in> set dir" "suffix ''_metadata.json'' f"
      using find_SomeD [of ?P dir fc] by (cases fc) auto
    then have "\<not> (\<forall>f \<in> set (map fst dir). \<not> suffix ''_metadata.json'' f)" by force
    moreover from Some fc have "load_metadata dir \<noteq> Inl MetadataNotFound"
      by (simp add: load_metadata_def split: sum.split load_exception.split)
    ultimately show ?thesis by simp
  qed
next
  fix pre f c post
  assume a: "dir = pre @ (f, c) # post \<and> suffix ''_metadata.json'' f \<and>
        (\<forall>g \<in> set (map fst pre). \<not> suffix ''_metadata.json'' g)"
  let ?P = "\<lambda>(f, c). suffix ''_metadata.json'' (f :: string)"
  from a have "\<forall>x \<in> set pre. \<not> ?P x" by auto
  moreover from a have "?P (f, c)" by simp
  ultimately have found: "find ?P (pre @ (f, c) # post) = Some (f, c)" by (rule find_first)
  {
    assume "c = Garbage"
    with a found show "load_metadata dir = Inl MetadataInvalid" by (simp add: load_metadata_def)
  }
  {
    fix j
    assume "c = JSONDoc j"
    with a found show "load_metadata dir = Inr j" by (simp add: load_metadata_def)
  }
qed

theorem load_metadata_outcomes_witness:
  "load_metadata [(''a.geojson'', GeoJSON [])] = Inl MetadataNotFound
   \<and> load_metadata [(''a.geojson'', GeoJSON []), (''x_metadata.json'', Garbage)] = Inl MetadataInvalid
   \<and> load_metadata [(''a.geojson'', GeoJSON []), (''x_metadata.json'', JSONDoc (JObject []))]
       = Inr (JObject [])"
proof -
  have 1: "load_metadata [(''a.geojson'', GeoJSON [])] = Inl MetadataNotFound"
    using load_metadata_outcomes [of "[(''a.geojson'', GeoJSON [])]"]
    by (simp add: suffix_to_prefix)
  have 2: "(c = Garbage \<longrightarrow>
         load_metadata [(''a.geojson'', GeoJSON []), (''x_metadata.json'', c)] = Inl MetadataInvalid) \<and>
      (\<forall>j. c = JSONDoc j \<longrightarrow>
         load_metadata [(''a.geojson'', GeoJSON []), (''x_metadata.json'', c)] = Inr j)" for c
  proof -
    have "[(''a.geojson'', GeoJSON []), (''x_metadata.json'', c)]
        = [(''a.geojson'', GeoJSON [])] @ (''x_metadata.json'', c) # []
      \<and> suffix ''_metadata.json'' ''x_metadata.json''
      \<and> (\<forall>g \<in> set (map fst [(''a.geojson'', GeoJSON [])]). \<not> suffix ''_metadata.json'' g)"
      by (simp add: suffix_to_prefix)
    with load_metadata_outcomes [of "[(''a.geojson'', GeoJSON []), (''x_metadata.json'', c)]"]
    show ?thesis by blast
  qed
  from 1 2 [of Garbage] 2 [of "JSONDoc (JObject [])"] show ?thesis by simp
qed

lemma map_of_dict_update: "map_of (dict_update d other) = map_of d ++ map_of (rev other)"
proof (induction other arbitrary: d)
  case Nil
  show ?case by (simp add: dict_update_def)
next
  case (Cons kv other)
  obtain k v where kv: "kv = (k, v)" by (cases kv)
  have "map_of (dict_update d (kv # other)) = map_of (dict_update (AList.update k v d) other)"
    by (simp add: dict_update_def kv)
  also have "\<dots> = map_of (AList.update k v d) ++ map_of (rev other)" by (rule Cons.IH)
  also have "\<dots> = map_of d ++ map_of (rev (kv # other))"
    by (simp add: kv update_conv' map_add_def fun_eq_iff split: option.split)
  finally show ?case .
qed

lemma file_features_origin:
  assumes "ft \<in> set (file_features dir bbox filename)"
  shows "\<exists>rows row properties_dict.
           map_of dir filename = Some (GeoJSON rows) \<and> row \<in> set rows \<and>
           intersects (geometry row) (box_of bbox) \<and>
           properties row = JSONObject properties_dict \<and>
           ft = output_feature properties_dict (geometry row)"
proof -
  from assms obtain c where c: "map_of dir filename = Some c"
    by (cases "map_of dir filename") (auto simp: file_features_def)
  with assms obtain rows where rows: "c = GeoJSON rows"
    by (cases c) (auto simp: file_features_def)
  with c assms obtain row where row:
    "row \<in> set (rows_kept (filter (\<lambda>f. intersects (geometry f) (box_of bbox)) rows))"
    "ft \<in> set (row_features row)"
    by (auto simp: file_features_def)
  from row(1) have "row \<in> set rows" "intersects (geometry row) (box_of bbox)"
    by (auto simp: rows_kept_def dest: set_takeWhileD)
  moreover from row(2) obtain properties_dict where
    "properties row = JSONObject properties_dict" "ft = output_feature properties_dict (geometry row)"
    by (cases "properties row") (auto simp: row_features_def)
  ultimately show ?thesis using c rows by blast
qed

lemma extract_data_features_origin:
  assumes "extract_data (Some dir) top_left bottom_right = Inr st"
    and "ft \<in> set (all_features st)"
  shows "\<exists>filename rows row properties_dict.
           map_of dir filename = Some (GeoJSON rows) \<and> row \<in> set rows \<and>
           intersects (geometry row) (box_of (query_box top_left bottom_right)) \<and>
           properties row = JSONObject properties_dict \<and>
           ft = output_feature properties_dict (geometry row)"
proof -
  from assms(1) obtain filenames where
    "st = extraction dir (query_box top_left bottom_right) filenames"
    by (auto simp: extract_data_result split: sum.splits)
  with assms(2) obtain filename where
    "ft \<in> set (file_features dir (query_box top_left bottom_right) filename)"
    by (auto simp: extraction_def Let_def)
  from file_features_origin [OF this] show ?thesis by blast
qed

text \<open>Rules that evaluate \<open>extract_data\<close> on a folder written out in full.\<close>

lemmas extract_eval =
  extract_data_result extraction_def load_metadata_def suffix_to_prefix chunk_coords_def
  index_entry_def intersecting_files_def rect_overlap_def query_box_def box_of_def
  intersects_box_box file_features_def file_messages_def rows_kept_def row_features_def
  row_messages_def intersects_insert intersects_empty output_feature_def dict_update_def
  example_folder_def example_rows_def

lemma example_extraction:
  "extract_data (Some example_folder) (2, 0) (0, 2) =
     Inr \<lparr>all_features =
            [\<lparr>ftype = ''Feature'',
              props = [(''type'', JString ''Feature''), (''height'', JNumber 3)],
              geom = {(1 / 2, 1 / 2)}\<rparr>,
             \<lparr>ftype = ''Feature'', props = [(''type'', JString ''Building'')], geom = {(3 / 4, 3 / 4)}\<rparr>],
          printed = [FoundCandidates 2, PropertiesNotParsed, FileNotFound ''b.geojson'', Extracted 2]\<rparr>"
  by (simp add: extract_eval)

section \<open>The type entry of output features\<close>

text \<open>
  C10. Every feature of the output comes from a row of a chunk file whose payload is a JSON
  object. Its properties are the dictionary \<open>{"type": "Feature"}\<close> updated with the payload:
  they have a key \<open>type\<close>, with the value \<open>Feature\<close> unless the payload has a member \<open>type\<close>,
  whose value then takes its place.
\<close>

theorem output_feature_has_type_entry:
  assumes "extract_data (Some dir) top_left bottom_right = Inr st"
    and "ft \<in> set (all_features st)"
  shows "\<exists>filename rows row properties_dict.
           map_of dir filename = Some (GeoJSON rows) \<and> row \<in> set rows \<and>
           properties row = JSONObject properties_dict \<and>
           ftype ft = ''Feature'' \<and>
           props ft = dict_update [(''type'', JString ''Feature'')] properties_dict \<and>
           map_of (props ft) ''type'' =
             (case map_of (rev properties_dict) ''type'' of
                None \<Rightarrow> Some (JString ''Feature'')
              | Some v \<Rightarrow> Some v)"
proof -
  from extract_data_features_origin [OF assms] obtain filename rows row properties_dict where
    o: "map_of dir filename = Some (GeoJSON rows)" "row \<in> set rows"
       "properties row = JSONObject properties_dict"
       "ft = output_feature properties_dict (geometry row)"
    by blast
  have "map_of (props ft) ''type'' =
      (case map_of (rev properties_dict) ''type'' of
         None \<Rightarrow> Some (JString ''Feature'')
       | Some v \<Rightarrow> Some v)"
    by (simp add: o(4) output_feature_def map_of_dict_update map_add_def split: option.split)
  moreover have "ftype ft = ''Feature''"
    "props ft = dict_update [(''type'', JString ''Feature'')] properties_dict"
    by (simp_all add: o(4) output_feature_def)
  ultimately show ?thesis using o(1-3) by blast
qed

theorem output_feature_has_type_entry_witness:
  "\<exists>st. extract_data (Some example_folder) (2, 0) (0, 2) = Inr st
     \<and> map (\<lambda>ft. map_of (props ft) ''type'') (all_features st)
         = [Some (JString ''Feature''), Some (JString ''Building'')]
     \<and> (\<exists>filename rows row properties_dict.
           map_of example_folder filename = Some (GeoJSON rows) \<and> row \<in> set rows \<and>
           properties row = JSONObject properties_dict \<and>
           map_of (props (hd (all_features st))) ''type'' =
             (case map_of (rev properties_dict) ''type'' of
                None \<Rightarrow> Some (JString ''Feature'')
              | Some v \<Rightarrow> Some v))"
proof -
  let ?st = "\<lparr>all_features =
            [\<lparr>ftype = ''Feature'',
              props = [(''type'', JString ''Feature''), (''height'', JNumber 3)],
              geom = {(1 / 2, 1 / 2)}\<rparr>,
             \<lparr>ftype = ''Feature'', props = [(''type'', JString ''Building'')], geom = {(3 / 4, 3 / 4)}\<rparr>],
          printed = [FoundCandidates 2, PropertiesNotParsed, FileNotFound ''b.geojson'', Extracted 2]\<rparr>"
  have e: "extract_data (Some example_folder) (2, 0) (0, 2) = Inr ?st"
    by (rule example_extraction)
  have "hd (all_features ?st) \<in> set (all_features ?st)" by simp
  from output_feature_has_type_entry [OF e this] e show ?thesis
    by (intro exI [of _ ?st]) (simp, blast)
qed

section \<open>A chunk file that is missing\<close>

lemma concat_map_removeAll:
  "f x = [] \<Longrightarrow> concat (map f (removeAll x xs)) = concat (map f xs)"
  by (induction xs) auto

text \<open>
  C8. Let the metadata load and the index be built, and let a file name listed in the
  metadata have no file in the folder. Then \<open>extract_data\<close> does not fail; its output is the
  one that the loop over the candidate files gives when that name is taken out of the
  candidates; and when the name is a candidate, the warning that the file was not found is
  printed.
\<close>

theorem missing_chunk_is_skipped:
  assumes "load_metadata dir = Inr md"
    and "build_index md = Inr idx"
    and "map_of dir filename = None"
  shows "\<exists>st. extract_data (Some dir) top_left bottom_right = Inr st
     \<and> all_features st =
         all_features
           (fold (process_file dir (query_box top_left bottom_right))
              (removeAll filename (intersecting_files idx (query_box top_left bottom_right)))
              \<lparr>all_features = [], printed = []\<rparr>)
     \<and> (filename \<in> set (intersecting_files idx (query_box top_left bottom_right)) \<longrightarrow>
          FileNotFound filename \<in> set (printed st))"
proof -
  let ?bbox = "query_box top_left bottom_right"
  let ?cands = "intersecting_files idx ?bbox"
  have e: "extract_data (Some dir) top_left bottom_right = Inr (extraction dir ?bbox ?cands)"
    by (simp add: extract_data_result assms(1,2))
  have "file_features dir ?bbox filename = []"
    by (simp add: file_features_def assms(3))
  then have "all_features (extraction dir ?bbox ?cands) =
      all_features (fold (process_file dir ?bbox) (removeAll filename ?cands)
        \<lparr>all_features = [], printed = []\<rparr>)"
    by (simp add: extraction_def Let_def fold_process_file_result concat_map_removeAll)
  moreover have "FileNotFound filename \<in> set (printed (extraction dir ?bbox ?cands))"
    if "filename \<in> set ?cands"
  proof -
    have "FileNotFound filename \<in> set (file_messages dir ?bbox filename)"
      by (simp add: file_messages_def assms(3))
    with that show ?thesis by (auto simp: extraction_def Let_def)
  qed
  ultimately show ?thesis using e by blast
qed

theorem missing_chunk_is_skipped_witness:
  "\<exists>st. extract_data (Some example_folder) (2, 0) (0, 2) = Inr st
     \<and> map geom (all_features st) = [{(1 / 2, 1 / 2)}, {(3 / 4, 3 / 4)}]
     \<and> all_features st =
         all_features (fold (process_file example_folder (0, 0, 2, 2)) [''a.geojson'']
           \<lparr>all_features = [], printed = []\<rparr>)
     \<and> FileNotFound ''b.geojson'' \<in> set (printed st)"
proof -
  have 1: "load_metadata example_folder =
      Inr (JObject [(''a.geojson'', chunk_coords (0, 0, 1, 1)), (''b.geojson'', chunk_coords (1, 0, 2, 1))])"
    by (simp add: load_metadata_def example_folder_def suffix_to_prefix)
  have 2: "build_index (JObject [(''a.geojson'', chunk_coords (0, 0, 1, 1)), (''b.geojson'', chunk_coords (1, 0, 2, 1))])
      = Inr [(''a.geojson'', (0, 0, 1, 1)), (''b.geojson'', (1, 0, 2, 1))]"
    by (simp add: chunk_coords_def index_entry_def)
  have 3: "map_of example_folder ''b.geojson'' = None"
    by (simp add: example_folder_def)
  have 4: "query_box (2, 0) (0, 2) = (0, 0, 2, 2)"
    by (simp add: query_box_def)
  have 5: "intersecting_files [(''a.geojson'', (0, 0, 1, 1)), (''b.geojson'', (1, 0, 2, 1))] (0, 0, 2, 2)
      = [''a.geojson'', ''b.geojson'']"
    by (simp add: intersecting_files_def rect_overlap_def box_of_def intersects_box_box)
  from missing_chunk_is_skipped [OF 1 2 3, of "(2, 0)" "(0, 2)"]
  obtain st where st: "extract_data (Some example_folder) (2, 0) (0, 2) = Inr st"
    "all_features st =
       all_features (fold (process_file example_folder (0, 0, 2, 2)) [''a.geojson'']
         \<lparr>all_features = [], printed = []\<rparr>)"
    "FileNotFound ''b.geojson'' \<in> set (printed st)"
    unfolding 4 5 by auto
  from st(1) have "map geom (all_features st) = [{(1 / 2, 1 / 2)}, {(3 / 4, 3 / 4)}]"
    by (auto simp: example_extraction)
  with st show ?thesis by (intro exI [of _ st]) simp
qed

section \<open>A payload on which the decoder raises another exception\<close>

text \<open>
  C9 (the code departs from it). The claim: a feature whose payload fails to decode is
  skipped alone, and the valid features of the same chunk are extracted. Line 167 catches
  \<open>JSONDecodeError\<close> only. In the chunk \<open>deep_rows\<close> the payload of the second row is nested deeper
  than the recursion limit, so \<open>json.loads\<close> raises \<open>RecursionError\<close>, which leaves the loop
  over the rows for the handler of line 171: the first row is in the output, the third row,
  whose payload is a JSON object, is not, and the line printed is "Error processing file".
\<close>

theorem decoder_exception_drops_rest_of_chunk:
  "extract_data (Some deep_folder) (1, 0) (0, 1) =
     Inr \<lparr>all_features =
            [\<lparr>ftype = ''Feature'',
              props = [(''type'', JString ''Feature''), (''height'', JNumber 3)],
              geom = {(1 / 4, 1 / 4)}\<rparr>],
          printed = [FoundCandidates 1, ProcessingError ''a.geojson'', Extracted 1]\<rparr>
   \<and> map properties deep_rows =
       [JSONObject [(''height'', JNumber 3)], OtherException, JSONObject [(''height'', JNumber 5)]]
   \<and> list_all (\<lambda>row. intersects (geometry row) (box_of (query_box (1, 0) (0, 1)))) deep_rows"
  by (simp add: extract_eval deep_folder_def deep_rows_def)


section \<open>The partitioning loops\<close>

lemma chunk_name_not_metadata:
  "\<not> suffix ''_metadata.json'' (chunk_name location x y)"
proof -
  have "\<not> suffix ''_metadata.json'' (s @ ''.geojson'')" for s :: string
    by (simp add: suffix_to_prefix)
  from this [of "location @ ''_'' @ fmt6 x @ ''_'' @ fmt6 y"] show ?thesis
    by (simp add: chunk_name_def)
qed

lemma metadata_name_suffix: "suffix ''_metadata.json'' (location @ ''_metadata.json'')"
  by (rule suffixI) simp

lemma chunk_name_neq_metadata: "chunk_name location x y \<noteq> location @ ''_metadata.json''"
  using chunk_name_not_metadata [of location x y] metadata_name_suffix [of location] by auto

lemma cell_step_result:
  "cell_step gdf location g x_max y_max x y st =
     (if cell_features gdf (cell_rect g x_max y_max x y) \<noteq> [] then
        st\<lparr>files := AList.update (chunk_name location x y)
                    (GeoJSON (cell_features gdf (cell_rect g x_max y_max x y))) (files st),
           metadata := AList.update (chunk_name location x y)
                    (chunk_coords (cell_rect g x_max y_max x y)) (metadata st)\<rparr>
      else st)"
  by (simp add: cell_step_def cell_features_def Let_def)

lemma set_alist_update: "set (AList.update k v al) \<subseteq> insert (k, v) (set al)"
  by (induction al) auto

text \<open>The cell that the loops visit last, when it has features, has its chunk and its entry.\<close>

lemma divide_data_last_cell:
  assumes "grid (x_min, y_min, x_max, y_max) = Inr (g, xs @ [x], ys @ [y])"
    and "cell_features gdf (cell_rect g x_max y_max x y) \<noteq> []"
  shows "\<exists>dir md.
       divide_data gdf output_folder location (x_min, y_min, x_max, y_max) = Inr dir
     \<and> map_of dir (location @ ''_metadata.json'') = Some (JSONDoc (JObject md))
     \<and> map_of md (chunk_name location x y) = Some (chunk_coords (cell_rect g x_max y_max x y))
     \<and> map_of dir (chunk_name location x y) =
           Some (GeoJSON (cell_features gdf (cell_rect g x_max y_max x y)))"
proof -
  define st1 where "st1 = fold (\<lambda>x. fold (cell_step gdf location g x_max y_max x) (ys @ [y])) xs
      \<lparr>files = output_folder, metadata = []\<rparr>"
  define st2 where "st2 = fold (cell_step gdf location g x_max y_max x) ys st1"
  define st where "st = cell_step gdf location g x_max y_max x y st2"
  have loop: "fold (\<lambda>x. fold (cell_step gdf location g x_max y_max x) (ys @ [y])) (xs @ [x])
      \<lparr>files = output_folder, metadata = []\<rparr> = st"
    by (simp add: st_def st2_def st1_def)
  have f: "map_of (files st) (chunk_name location x y) =
      Some (GeoJSON (cell_features gdf (cell_rect g x_max y_max x y)))"
    by (simp add: st_def cell_step_result assms(2) update_conv')
  have m: "map_of (metadata st) (chunk_name location x y) =
      Some (chunk_coords (cell_rect g x_max y_max x y))"
    by (simp add: st_def cell_step_result assms(2) update_conv')
  let ?dir = "AList.update (location @ ''_metadata.json'') (JSONDoc (JObject (metadata st))) (files st)"
  have 1: "divide_data gdf output_folder location (x_min, y_min, x_max, y_max) = Inr ?dir"
    by (simp only: divide_data_def assms(1) sum.case prod.case Let_def fst_conv snd_conv loop)
  have 2: "map_of ?dir (location @ ''_metadata.json'') = Some (JSONDoc (JObject (metadata st)))"
    by (simp add: update_conv')
  have 3: "map_of ?dir (chunk_name location x y) =
      Some (GeoJSON (cell_features gdf (cell_rect g x_max y_max x y)))"
    using chunk_name_neq_metadata [of location x y] by (simp add: update_conv' f)
  from 1 2 m 3 show ?thesis by blast
qed

text \<open>A row of a chunk file intersects the rectangle of some cell of the grid.\<close>

lemma cell_step_files:
  assumes "(n, c) \<in> set (files (cell_step gdf location g x_max y_max x y st))"
  shows "(n, c) \<in> set (files st) \<or> c = GeoJSON (cell_features gdf (cell_rect g x_max y_max x y))"
proof (cases "cell_features gdf (cell_rect g x_max y_max x y) \<noteq> []")
  case True
  with assms have "(n, c) \<in> set (AList.update (chunk_name location x y)
      (GeoJSON (cell_features gdf (cell_rect g x_max y_max x y))) (files st))"
    by (simp add: cell_step_result)
  with set_alist_update show ?thesis by fastforce
next
  case False
  with assms show ?thesis by (simp add: cell_step_result)
qed

lemma inner_loop_files:
  assumes "(n, c) \<in> set (files (fold (cell_step gdf location g x_max y_max x) ys st))"
  shows "(n, c) \<in> set (files st) \<or>
     (\<exists>y \<in> set ys. c = GeoJSON (cell_features gdf (cell_rect g x_max y_max x y)))"
  using assms
proof (induction ys arbitrary: st)
  case Nil
  then show ?case by simp
next
  case (Cons y ys)
  from Cons.prems have "(n, c) \<in> set (files (fold (cell_step gdf location g x_max y_max x) ys
      (cell_step gdf location g x_max y_max x y st)))" by simp
  from Cons.IH [OF this] cell_step_files [of n c gdf location g x_max y_max x y st]
  show ?case by auto
qed

lemma outer_loop_files:
  assumes "(n, c) \<in> set (files (fold (\<lambda>x. fold (cell_step gdf location g x_max y_max x) ys) xs st))"
  shows "(n, c) \<in> set (files st) \<or>
     (\<exists>x \<in> set xs. \<exists>y \<in> set ys. c = GeoJSON (cell_features gdf (cell_rect g x_max y_max x y)))"
  using assms
proof (induction xs arbitrary: st)
  case Nil
  then show ?case by simp
next
  case (Cons x xs)
  from Cons.prems have "(n, c) \<in> set (files (fold (\<lambda>x. fold (cell_step gdf location g x_max y_max x) ys) xs
      (fold (cell_step gdf location g x_max y_max x) ys st)))" by simp
  from Cons.IH [OF this] inner_loop_files [of n c gdf location g x_max y_max x ys st]
  show ?case by auto
qed

lemma stored_rows_in_cells:
  assumes "grid (x_min, y_min, x_max, y_max) = Inr (g, xs, ys)"
    and "divide_data gdf [] location (x_min, y_min, x_max, y_max) = Inr dir"
    and "row \<in> set (stored_rows dir)"
  shows "\<exists>x \<in> set xs. \<exists>y \<in> set ys.
           intersects (geometry row) (box_of (cell_rect g x_max y_max x y))"
proof -
  define st where "st = fold (\<lambda>x. fold (cell_step gdf location g x_max y_max x) ys) xs
      \<lparr>files = [], metadata = []\<rparr>"
  from assms(1,2) have dir: "dir = AList.update (location @ ''_metadata.json'')
      (JSONDoc (JObject (metadata st))) (files st)"
    by (simp add: divide_data_def Let_def st_def)
  from assms(3) obtain n c rows where nc: "(n, c) \<in> set dir" "read_file c = Some rows" "row \<in> set rows"
    by (auto simp: stored_rows_def split: option.splits) metis
  from nc(1) set_alist_update [of "location @ ''_metadata.json''"
      "JSONDoc (JObject (metadata st))" "files st"]
  have "(n, c) \<in> set (files st) \<or> c = JSONDoc (JObject (metadata st))"
    unfolding dir by auto
  with nc(2) have "(n, c) \<in> set (files st)" by auto
  from outer_loop_files [OF this [unfolded st_def]] obtain x y where
    xy: "x \<in> set xs" "y \<in> set ys" "c = GeoJSON (cell_features gdf (cell_rect g x_max y_max x y))"
    by auto
  from xy(3) nc(2) have "rows = cell_features gdf (cell_rect g x_max y_max x y)" by simp
  with nc(3) have "row \<in> set (cell_features gdf (cell_rect g x_max y_max x y))" by simp
  then have "intersects (geometry row) (box_of (cell_rect g x_max y_max x y))"
    by (simp add: cell_features_def)
  with xy(1,2) show ?thesis by blast
qed


section \<open>Evaluating the partition of the very small collection\<close>

lemma pad_digits_6:
  "pad_digits 6 m = [digit (m div 100000 mod 10), digit (m div 10000 mod 10), digit (m div 1000 mod 10),
     digit (m div 100 mod 10), digit (m div 10 mod 10), digit (m mod 10)]"
proof -
  have six: "(6::nat) = Suc (Suc (Suc (Suc (Suc (Suc 0)))))" by simp
  show ?thesis unfolding six by (simp add: div_mult2_eq [symmetric])
qed

lemmas fmt6_eval = fmt6_def micro_def round_half_even_def show_nat.simps pad_digits_6 digit_def

lemmas float_ops = fadd_def fsub_def fmul_def fdiv_def

lemma upt_25: "[0..<25] = [0, 1, 2, 3, 4, 5, 6, 7, 8, 9, 10, 11, 12, 13, 14, 15, 16, 17, 18, 19, 20, 21, 22, 23, 24 :: nat]"
  by code_simp

lemma upt_4: "[0..<4] = [0, 1, 2, 3 :: nat]"
  by code_simp

lemma tiny_rnd_1: "rnd (25 / 67108864) = 25 / 67108864"
  using rnd_repr [where m = "7036874417766400" and k = 74] by simp

lemma tiny_rnd_2: "rnd (1 / 16777216) = 1 / 16777216"
  using rnd_repr [where m = "4503599627370496" and k = 76] by simp

lemma tiny_rnd_3: "rnd (25 / 1125899906842624) = 25 / 1125899906842624"
  using rnd_repr [where m = "7036874417766400" and k = 98] by simp

lemma tiny_rnd_4: "rnd (1 / 4503599627370496) = 1 / 4503599627370496"
  using rnd_repr [where m = "4503599627370496" and k = 104] by simp

lemma tiny_rnd_5: "rnd (sqrt (1 / 4503599627370496)) = 1 / 67108864"
  using rnd_sqrt_near [where c = "1 / 4503599627370496" and m = "4503599627370496" and k = 78] by (simp add: power2_eq_square)

lemma tiny_rnd_6: "rnd 25 = 25"
  using rnd_repr [where m = "7036874417766400" and k = 48] by simp

lemma tiny_rnd_7: "rnd (1 / 67108864) = 1 / 67108864"
  using rnd_repr [where m = "4503599627370496" and k = 78] by simp

lemma tiny_rnd_8: "rnd 4 = 4"
  using rnd_repr [where m = "4503599627370496" and k = 50] by simp

lemma tiny_rnd_9: "rnd (1 / 33554432) = 1 / 33554432"
  using rnd_repr [where m = "4503599627370496" and k = 77] by simp

lemma tiny_rnd_10: "rnd (3 / 67108864) = 3 / 67108864"
  using rnd_repr [where m = "6755399441055744" and k = 77] by simp

lemma tiny_rnd_11: "rnd (5 / 67108864) = 5 / 67108864"
  using rnd_repr [where m = "5629499534213120" and k = 76] by simp

lemma tiny_rnd_12: "rnd (3 / 33554432) = 3 / 33554432"
  using rnd_repr [where m = "6755399441055744" and k = 76] by simp

lemma tiny_rnd_13: "rnd (7 / 67108864) = 7 / 67108864"
  using rnd_repr [where m = "7881299347898368" and k = 76] by simp

lemma tiny_rnd_14: "rnd (1 / 8388608) = 1 / 8388608"
  using rnd_repr [where m = "4503599627370496" and k = 75] by simp

lemma tiny_rnd_15: "rnd (9 / 67108864) = 9 / 67108864"
  using rnd_repr [where m = "5066549580791808" and k = 75] by simp

lemma tiny_rnd_16: "rnd (5 / 33554432) = 5 / 33554432"
  using rnd_repr [where m = "5629499534213120" and k = 75] by simp

lemma tiny_rnd_17: "rnd (11 / 67108864) = 11 / 67108864"
  using rnd_repr [where m = "6192449487634432" and k = 75] by simp

lemma tiny_rnd_18: "rnd (3 / 16777216) = 3 / 16777216"
  using rnd_repr [where m = "6755399441055744" and k = 75] by simp

lemma tiny_rnd_19: "rnd (13 / 67108864) = 13 / 67108864"
  using rnd_repr [where m = "7318349394477056" and k = 75] by simp

lemma tiny_rnd_20: "rnd (7 / 33554432) = 7 / 33554432"
  using rnd_repr [where m = "7881299347898368" and k = 75] by simp

lemma tiny_rnd_21: "rnd (15 / 67108864) = 15 / 67108864"
  using rnd_repr [where m = "8444249301319680" and k = 75] by simp

lemma tiny_rnd_22: "rnd (1 / 4194304) = 1 / 4194304"
  using rnd_repr [where m = "4503599627370496" and k = 74] by simp

lemma tiny_rnd_23: "rnd (17 / 67108864) = 17 / 67108864"
  using rnd_repr [where m = "4785074604081152" and k = 74] by simp

lemma tiny_rnd_24: "rnd (9 / 33554432) = 9 / 33554432"
  using rnd_repr [where m = "5066549580791808" and k = 74] by simp

lemma tiny_rnd_25: "rnd (19 / 67108864) = 19 / 67108864"
  using rnd_repr [where m = "5348024557502464" and k = 74] by simp

lemma tiny_rnd_26: "rnd (5 / 16777216) = 5 / 16777216"
  using rnd_repr [where m = "5629499534213120" and k = 74] by simp

lemma tiny_rnd_27: "rnd (21 / 67108864) = 21 / 67108864"
  using rnd_repr [where m = "5910974510923776" and k = 74] by simp

lemma tiny_rnd_28: "rnd (11 / 33554432) = 11 / 33554432"
  using rnd_repr [where m = "6192449487634432" and k = 74] by simp

lemma tiny_rnd_29: "rnd (23 / 67108864) = 23 / 67108864"
  using rnd_repr [where m = "6473924464345088" and k = 74] by simp

lemma tiny_rnd_30: "rnd (3 / 8388608) = 3 / 8388608"
  using rnd_repr [where m = "6755399441055744" and k = 74] by simp

lemmas tiny_rnd = tiny_rnd_1 tiny_rnd_2 tiny_rnd_3 tiny_rnd_4 tiny_rnd_5 tiny_rnd_6 tiny_rnd_7 tiny_rnd_8 tiny_rnd_9 tiny_rnd_10 tiny_rnd_11 tiny_rnd_12 tiny_rnd_13 tiny_rnd_14 tiny_rnd_15 tiny_rnd_16 tiny_rnd_17 tiny_rnd_18 tiny_rnd_19 tiny_rnd_20 tiny_rnd_21 tiny_rnd_22 tiny_rnd_23 tiny_rnd_24 tiny_rnd_25 tiny_rnd_26 tiny_rnd_27 tiny_rnd_28 tiny_rnd_29 tiny_rnd_30

lemma tiny_total_bounds: "total_bounds tiny_gdf = (0, 0, 25 / 67108864, 1 / 16777216)"
  by (simp add: total_bounds_def tiny_gdf_def)

lemma tiny_grid:
  "grid (0, 0, 25 / 67108864, 1 / 16777216) =
     Inr (1 / 67108864, map (\<lambda>i. real i / 67108864) [0..<25], map (\<lambda>i. real i / 67108864) [0..<4])"
  by (simp add: grid_def math_sqrt_def arange_def float_ops tiny_rnd rnd_zero Let_def upt_25 upt_4)

lemma tiny_partition:
  "divide_data tiny_gdf [] ''t'' (0, 0, 25 / 67108864, 1 / 16777216) =
     Inr [(''t_0.000000_0.000000.geojson'', GeoJSON [tiny_gdf ! 1]),
          (''t_metadata.json'', JSONDoc (JObject [(''t_0.000000_0.000000.geojson'',
              chunk_coords (3 / 8388608, 3 / 67108864, 25 / 67108864, 1 / 16777216))]))]"
  by (simp add: divide_data_def tiny_grid upt_25 upt_4 Let_def cell_step_def cell_rect_def float_ops
        tiny_rnd box_of_def tiny_gdf_def intersects_insert intersects_empty chunk_name_def fmt6_eval
        chunk_coords_def)


section \<open>The grid of a box with sides of three thousandths\<close>

text \<open>
  The bounding box \<open>(0, 0, 0.003, 0.003)\<close> has the step \<open>0.0003\<close>. In exact arithmetic each axis
  would have ten origins. The double quotient of \<open>0.003\<close> and \<open>0.0003\<close> is \<open>10.000000000000002\<close>,
  so \<open>np.arange\<close> gives eleven, the last being \<open>0.0029999999999999996\<close>.
\<close>

lemma milli_rnd_1: "rnd (3 / 1000) = 3458764513820541 / 1152921504606846976"
  using rnd_near [where x = "3 / 1000" and m = "6917529027641082" and k = 61] by simp

lemma milli_rnd_2: "rnd (3458764513820541 / 1152921504606846976) = 3458764513820541 / 1152921504606846976"
  using rnd_repr [where m = "6917529027641082" and k = 61] by simp

lemma milli_rnd_3: "rnd (11963051962064243354196353532681 / 1329227995784915872903807060280344576) = 5312662293228351 / 590295810358705651712"
  using rnd_near [where x = "11963051962064243354196353532681 / 1329227995784915872903807060280344576" and m = "5312662293228351" and k = 69] by simp

lemma milli_rnd_4: "rnd (5312662293228351 / 59029581035870565171200) = 6800207735332289 / 75557863725914323419136"
  using rnd_near [where x = "5312662293228351 / 59029581035870565171200" and m = "6800207735332289" and k = 76] by simp

lemma milli_rnd_5: "rnd (sqrt (6800207735332289 / 75557863725914323419136)) = 5534023222112865 / 18446744073709551616"
  using rnd_sqrt_near [where c = "6800207735332289 / 75557863725914323419136" and m = "5534023222112865" and k = 64] by (simp add: power2_eq_square)

lemma milli_rnd_6: "rnd (18446744073709552 / 1844674407370955) = 5629499534213121 / 562949953421312"
  using rnd_near [where x = "18446744073709552 / 1844674407370955" and m = "5629499534213121" and k = 49] by simp

lemma milli_rnd_7: "rnd (5534023222112865 / 18446744073709551616) = 5534023222112865 / 18446744073709551616"
  using rnd_repr [where m = "5534023222112865" and k = 64] by simp

lemma milli_rnd_8: "rnd (5534023222112865 / 9223372036854775808) = 5534023222112865 / 9223372036854775808"
  using rnd_repr [where m = "5534023222112865" and k = 63] by simp

lemma milli_rnd_9: "rnd (16602069666338595 / 18446744073709551616) = 4150517416584649 / 4611686018427387904"
  using rnd_tie [where x = "16602069666338595 / 18446744073709551616" and m = "8301034833169298" and k = 63] by simp

lemma milli_rnd_10: "rnd (4150517416584649 / 4611686018427387904) = 4150517416584649 / 4611686018427387904"
  using rnd_repr [where m = "8301034833169298" and k = 63] by simp

lemma milli_rnd_11: "rnd (5534023222112865 / 4611686018427387904) = 5534023222112865 / 4611686018427387904"
  using rnd_repr [where m = "5534023222112865" and k = 62] by simp

lemma milli_rnd_12: "rnd (27670116110564325 / 18446744073709551616) = 6917529027641081 / 4611686018427387904"
  using rnd_near [where x = "27670116110564325 / 18446744073709551616" and m = "6917529027641081" and k = 62] by simp

lemma milli_rnd_13: "rnd (6917529027641081 / 4611686018427387904) = 6917529027641081 / 4611686018427387904"
  using rnd_repr [where m = "6917529027641081" and k = 62] by simp

lemma milli_rnd_14: "rnd (16602069666338595 / 9223372036854775808) = 4150517416584649 / 2305843009213693952"
  using rnd_tie [where x = "16602069666338595 / 9223372036854775808" and m = "8301034833169298" and k = 62] by simp

lemma milli_rnd_15: "rnd (4150517416584649 / 2305843009213693952) = 4150517416584649 / 2305843009213693952"
  using rnd_repr [where m = "8301034833169298" and k = 62] by simp

lemma milli_rnd_16: "rnd (38738162554790055 / 18446744073709551616) = 4842270319348757 / 2305843009213693952"
  using rnd_near [where x = "38738162554790055 / 18446744073709551616" and m = "4842270319348757" and k = 61] by simp

lemma milli_rnd_17: "rnd (4842270319348757 / 2305843009213693952) = 4842270319348757 / 2305843009213693952"
  using rnd_repr [where m = "4842270319348757" and k = 61] by simp

lemma milli_rnd_18: "rnd (5534023222112865 / 2305843009213693952) = 5534023222112865 / 2305843009213693952"
  using rnd_repr [where m = "5534023222112865" and k = 61] by simp

lemma milli_rnd_19: "rnd (49806208999015785 / 18446744073709551616) = 6225776124876973 / 2305843009213693952"
  using rnd_near [where x = "49806208999015785 / 18446744073709551616" and m = "6225776124876973" and k = 61] by simp

lemma milli_rnd_20: "rnd (6225776124876973 / 2305843009213693952) = 6225776124876973 / 2305843009213693952"
  using rnd_repr [where m = "6225776124876973" and k = 61] by simp

lemma milli_rnd_21: "rnd (27670116110564325 / 9223372036854775808) = 6917529027641081 / 2305843009213693952"
  using rnd_near [where x = "27670116110564325 / 9223372036854775808" and m = "6917529027641081" and k = 61] by simp

lemma milli_rnd_22: "rnd (6917529027641081 / 2305843009213693952) = 6917529027641081 / 2305843009213693952"
  using rnd_repr [where m = "6917529027641081" and k = 61] by simp

lemmas milli_rnd = milli_rnd_1 milli_rnd_2 milli_rnd_3 milli_rnd_4 milli_rnd_5 milli_rnd_6 milli_rnd_7 milli_rnd_8 milli_rnd_9 milli_rnd_10 milli_rnd_11 milli_rnd_12 milli_rnd_13 milli_rnd_14 milli_rnd_15 milli_rnd_16 milli_rnd_17 milli_rnd_18 milli_rnd_19 milli_rnd_20 milli_rnd_21 milli_rnd_22

lemma upt_11: "[0..<11] = [0, 1, 2, 3, 4, 5, 6, 7, 8, 9, 10 :: nat]"
  by code_simp

lemma milli_ranges:
  "arange 0 (rnd (3 / 1000)) (5534023222112865 / 18446744073709551616) =
     Inr [0,
        5534023222112865 / 18446744073709551616,
        5534023222112865 / 9223372036854775808,
        4150517416584649 / 4611686018427387904,
        5534023222112865 / 4611686018427387904,
        6917529027641081 / 4611686018427387904,
        4150517416584649 / 2305843009213693952,
        4842270319348757 / 2305843009213693952,
        5534023222112865 / 2305843009213693952,
        6225776124876973 / 2305843009213693952,
        6917529027641081 / 2305843009213693952]"
  by (simp add: arange_def Let_def float_ops milli_rnd upt_11)

lemma milli_grid:
  "\<exists>xs. grid (0, 0, rnd (3 / 1000), rnd (3 / 1000)) = Inr (5534023222112865 / 18446744073709551616, xs, xs)
     \<and> length xs = 11 \<and> last xs = 6917529027641081 / 2305843009213693952 \<and> last xs < rnd (3 / 1000)"
proof -
  have "grid (0, 0, rnd (3 / 1000), rnd (3 / 1000)) =
      Inr (5534023222112865 / 18446744073709551616,
        [0,
        5534023222112865 / 18446744073709551616,
        5534023222112865 / 9223372036854775808,
        4150517416584649 / 4611686018427387904,
        5534023222112865 / 4611686018427387904,
        6917529027641081 / 4611686018427387904,
        4150517416584649 / 2305843009213693952,
        4842270319348757 / 2305843009213693952,
        5534023222112865 / 2305843009213693952,
        6225776124876973 / 2305843009213693952,
        6917529027641081 / 2305843009213693952],
        [0,
        5534023222112865 / 18446744073709551616,
        5534023222112865 / 9223372036854775808,
        4150517416584649 / 4611686018427387904,
        5534023222112865 / 4611686018427387904,
        6917529027641081 / 4611686018427387904,
        4150517416584649 / 2305843009213693952,
        4842270319348757 / 2305843009213693952,
        5534023222112865 / 2305843009213693952,
        6225776124876973 / 2305843009213693952,
        6917529027641081 / 2305843009213693952])"
    by (simp add: grid_def Let_def math_sqrt_def float_ops milli_rnd milli_ranges [unfolded milli_rnd])
  then show ?thesis by (simp add: milli_rnd)
qed


section \<open>Two cells with one file name\<close>

text \<open>
  C6 (the code departs from it). The claim: the chunk persisted for a cell holds exactly the
  features that intersect the cell, and its metadata value is the rectangle of the cell. The
  very small collection is partitioned with its own bounding box. The grid has 25 by 4
  cells with the step \<open>1 / 67108864\<close>. The cell with origin \<open>(0, 0)\<close> has the first feature and
  the cell with origin \<open>(24 / 67108864, 3 / 67108864)\<close> the second; both cells are given the
  file name \<open>t_0.000000_0.000000.geojson\<close>, since the name keeps six decimals of the origin
  (line 80). The later cell overwrites the file and the metadata entry of the earlier one:
  after the call the file of the first cell holds the second feature only, under the
  rectangle of the other cell, and the first feature is in no chunk.
\<close>

theorem colliding_names_overwrite_chunk:
  "total_bounds tiny_gdf = (0, 0, 25 / 67108864, 1 / 16777216)
   \<and> grid (total_bounds tiny_gdf) =
       Inr (1 / 67108864, map (\<lambda>i. real i / 67108864) [0..<25], map (\<lambda>i. real i / 67108864) [0..<4])
   \<and> cell_features tiny_gdf (cell_rect (1 / 67108864) (25 / 67108864) (1 / 16777216) 0 0) = [tiny_gdf ! 0]
   \<and> chunk_name ''t'' 0 0 = ''t_0.000000_0.000000.geojson''
   \<and> divide_data tiny_gdf [] ''t'' (total_bounds tiny_gdf) =
       Inr [(''t_0.000000_0.000000.geojson'', GeoJSON [tiny_gdf ! 1]),
          (''t_metadata.json'', JSONDoc (JObject [(''t_0.000000_0.000000.geojson'',
              chunk_coords (3 / 8388608, 3 / 67108864, 25 / 67108864, 1 / 16777216))]))]
   \<and> tiny_gdf ! 0 \<noteq> tiny_gdf ! 1"
proof (intro conjI)
  show "total_bounds tiny_gdf = (0, 0, 25 / 67108864, 1 / 16777216)" by (rule tiny_total_bounds)
  show "grid (total_bounds tiny_gdf) =
       Inr (1 / 67108864, map (\<lambda>i. real i / 67108864) [0..<25], map (\<lambda>i. real i / 67108864) [0..<4])"
    unfolding tiny_total_bounds by (rule tiny_grid)
  show "cell_features tiny_gdf (cell_rect (1 / 67108864) (25 / 67108864) (1 / 16777216) 0 0) = [tiny_gdf ! 0]"
    by (simp add: cell_features_def tiny_gdf_def cell_rect_def float_ops tiny_rnd box_of_def
          intersects_insert intersects_empty)
  show "chunk_name ''t'' 0 0 = ''t_0.000000_0.000000.geojson''"
    by (simp add: chunk_name_def fmt6_eval)
  show "divide_data tiny_gdf [] ''t'' (total_bounds tiny_gdf) =
       Inr [(''t_0.000000_0.000000.geojson'', GeoJSON [tiny_gdf ! 1]),
          (''t_metadata.json'', JSONDoc (JObject [(''t_0.000000_0.000000.geojson'',
              chunk_coords (3 / 8388608, 3 / 67108864, 25 / 67108864, 1 / 16777216))]))]"
    unfolding tiny_total_bounds by (rule tiny_partition)
  show "tiny_gdf ! 0 \<noteq> tiny_gdf ! 1" by (simp add: tiny_gdf_def)
qed

section \<open>Extraction from the partition of the very small collection\<close>

text \<open>
  C3 (the code departs from it). The claim: after partitioning, extraction with the bounding
  box of the collection returns every feature of the collection. The very small collection
  has two features, both with a payload that decodes. Its partition, made with its own
  bounding box, keeps one chunk, in which the first feature is missing, since the cells of
  the two features are given the same file name. Extraction with the corners of the bounding
  box returns the second feature only.
\<close>

theorem colliding_names_lose_feature:
  "divide_data tiny_gdf [] ''t'' (total_bounds tiny_gdf) =
     Inr [(''t_0.000000_0.000000.geojson'', GeoJSON [tiny_gdf ! 1]),
          (''t_metadata.json'', JSONDoc (JObject [(''t_0.000000_0.000000.geojson'',
              chunk_coords (3 / 8388608, 3 / 67108864, 25 / 67108864, 1 / 16777216))]))]
   \<and> query_box (1 / 16777216, 0) (0, 25 / 67108864) = total_bounds tiny_gdf
   \<and> extract_data
       (Some [(''t_0.000000_0.000000.geojson'', GeoJSON [tiny_gdf ! 1]),
          (''t_metadata.json'', JSONDoc (JObject [(''t_0.000000_0.000000.geojson'',
              chunk_coords (3 / 8388608, 3 / 67108864, 25 / 67108864, 1 / 16777216))]))])
       (1 / 16777216, 0) (0, 25 / 67108864)
     = Inr \<lparr>all_features = [output_of (tiny_gdf ! 1)],
            printed = [FoundCandidates 1, Extracted 1]\<rparr>
   \<and> length tiny_gdf = 2
   \<and> output_of (tiny_gdf ! 0) \<noteq> output_of (tiny_gdf ! 1)
   \<and> map properties tiny_gdf = [JSONObject [(''height'', JNumber 3)], JSONObject [(''height'', JNumber 4)]]
   \<and> intersects (geometry (tiny_gdf ! 0)) (box_of (total_bounds tiny_gdf))"
proof (intro conjI)
  show "divide_data tiny_gdf [] ''t'' (total_bounds tiny_gdf) =
     Inr [(''t_0.000000_0.000000.geojson'', GeoJSON [tiny_gdf ! 1]),
          (''t_metadata.json'', JSONDoc (JObject [(''t_0.000000_0.000000.geojson'',
              chunk_coords (3 / 8388608, 3 / 67108864, 25 / 67108864, 1 / 16777216))]))]"
    unfolding tiny_total_bounds by (rule tiny_partition)
  show "query_box (1 / 16777216, 0) (0, 25 / 67108864) = total_bounds tiny_gdf"
    by (simp add: tiny_total_bounds query_box_def)
  show "extract_data
       (Some [(''t_0.000000_0.000000.geojson'', GeoJSON [tiny_gdf ! 1]),
          (''t_metadata.json'', JSONDoc (JObject [(''t_0.000000_0.000000.geojson'',
              chunk_coords (3 / 8388608, 3 / 67108864, 25 / 67108864, 1 / 16777216))]))])
       (1 / 16777216, 0) (0, 25 / 67108864)
     = Inr \<lparr>all_features = [output_of (tiny_gdf ! 1)],
            printed = [FoundCandidates 1, Extracted 1]\<rparr>"
    by (simp add: extract_eval tiny_gdf_def output_of_def)
  show "length tiny_gdf = 2" by (simp add: tiny_gdf_def)
  show "output_of (tiny_gdf ! 0) \<noteq> output_of (tiny_gdf ! 1)"
    by (simp add: tiny_gdf_def output_of_def output_feature_def)
  show "map properties tiny_gdf = [JSONObject [(''height'', JNumber 3)], JSONObject [(''height'', JNumber 4)]]"
    by (simp add: tiny_gdf_def)
  show "intersects (geometry (tiny_gdf ! 0)) (box_of (total_bounds tiny_gdf))"
    unfolding tiny_total_bounds by (simp add: tiny_gdf_def box_of_def intersects_insert)
qed


section \<open>Ranges\<close>

lemma arange_returns: "step \<noteq> 0 \<Longrightarrow> \<exists>l. arange start stop step = Inr l"
  by (simp add: arange_def Let_def)

lemma arange_last:
  assumes "step \<noteq> 0" and "nat \<lceil>fdiv (fsub stop start) step\<rceil> = Suc n" and "2 \<le> n"
  shows "\<exists>l. arange start stop step =
           Inr (l @ [fadd start (fmul (real n) (fsub (fadd start step) start))])"
proof -
  let ?f = "\<lambda>i. if i = 0 then start else if i = 1 then fadd start step
      else fadd start (fmul (real i) (fsub (fadd start step) start))"
  have "arange start stop step = Inr (map ?f [0..<Suc n])"
    using assms(1,2) by (simp add: arange_def Let_def del: upt_Suc)
  also have "map ?f [0..<Suc n] = map ?f [0..<n] @ [?f n]" by simp
  also have "?f n = fadd start (fmul (real n) (fsub (fadd start step) start))"
    using assms(3) by simp
  finally show ?thesis by blast
qed

lemma upt_3: "[0..<3] = [0, 1, 2 :: nat]"
  by code_simp

section \<open>An origin beyond the maximum\<close>

lemma over_rnd_1: "rnd (- (11 / 10)) = - (2476979795053773 / 2251799813685248)"
  using rnd_near [where x = "- (11 / 10)" and m = "- 4953959590107546" and k = 52] by simp

lemma over_rnd_2: "rnd (- (9 / 10)) = - (8106479329266893 / 9007199254740992)"
  using rnd_near [where x = "- (9 / 10)" and m = "- 8106479329266893" and k = 53] by simp

lemma over_rnd_3: "rnd (1801439850948199 / 9007199254740992) = 1801439850948199 / 9007199254740992"
  using rnd_repr [where m = "7205759403792796" and k = 55] by simp

lemma over_rnd_4: "rnd 5 = 5"
  using rnd_repr [where m = "5629499534213120" and k = 50] by simp

lemma over_rnd_5: "rnd (9007199254740995 / 9007199254740992) = 2251799813685249 / 2251799813685248"
  using rnd_tie [where x = "9007199254740995 / 9007199254740992" and m = "4503599627370498" and k = 52] by simp

lemma over_rnd_6: "rnd (2251799813685249 / 225179981368524800) = 5764607523034237 / 576460752303423488"
  using rnd_near [where x = "2251799813685249 / 225179981368524800" and m = "5764607523034237" and k = 59] by simp

lemma over_rnd_7: "rnd (sqrt (5764607523034237 / 576460752303423488)) = 7205759403792795 / 72057594037927936"
  using rnd_sqrt_near [where c = "5764607523034237 / 576460752303423488" and m = "7205759403792795" and k = 56] by (simp add: power2_eq_square)

lemma over_rnd_8: "rnd (14411518807585592 / 7205759403792795) = 4503599627370497 / 2251799813685248"
  using rnd_near [where x = "14411518807585592 / 7205759403792795" and m = "4503599627370497" and k = 51] by simp

lemma over_rnd_9: "rnd (- (72057594037927941 / 72057594037927936)) = - 1"
  using rnd_near [where x = "- (72057594037927941 / 72057594037927936)" and m = "- 4503599627370496" and k = 52] by simp

lemma over_rnd_10: "rnd (225179981368525 / 2251799813685248) = 225179981368525 / 2251799813685248"
  using rnd_repr [where m = "7205759403792800" and k = 56] by simp

lemma over_rnd_11: "rnd (72057594037927936 / 1441151880758559) = 7036874417766399 / 140737488355328"
  using rnd_near [where x = "72057594037927936 / 1441151880758559" and m = "7036874417766399" and k = 47] by simp

lemma over_rnd_12: "rnd (7205759403792795 / 72057594037927936) = 7205759403792795 / 72057594037927936"
  using rnd_repr [where m = "7205759403792795" and k = 56] by simp

lemma over_rnd_13: "rnd (225179981368525 / 1125899906842624) = 225179981368525 / 1125899906842624"
  using rnd_repr [where m = "7205759403792800" and k = 55] by simp

lemma over_rnd_14: "rnd (- (2026619832316723 / 2251799813685248)) = - (2026619832316723 / 2251799813685248)"
  using rnd_repr [where m = "- 8106479329266892" and k = 53] by simp

lemma over_rnd_15: "rnd (353082210785846955 / 72057594037927936) = 5516909543528859 / 1125899906842624"
  using rnd_near [where x = "353082210785846955 / 72057594037927936" and m = "5516909543528859" and k = 50] by simp

lemma over_rnd_16: "rnd (5516909543528859 / 1125899906842624) = 5516909543528859 / 1125899906842624"
  using rnd_repr [where m = "5516909543528859" and k = 50] by simp

lemma over_rnd_17: "rnd (- (57646075230342341 / 72057594037927936)) = - (7205759403792793 / 9007199254740992)"
  using rnd_near [where x = "- (57646075230342341 / 72057594037927936)" and m = "- 7205759403792793" and k = 53] by simp

lemma over_rnd_18: "rnd (360287970189639771 / 72057594037927936) = 5629499534213121 / 1125899906842624"
  using rnd_near [where x = "360287970189639771 / 72057594037927936" and m = "5629499534213121" and k = 50] by simp

lemmas over_rnd = over_rnd_1 over_rnd_2 over_rnd_3 over_rnd_4 over_rnd_5 over_rnd_6 over_rnd_7 over_rnd_8 over_rnd_9 over_rnd_10 over_rnd_11 over_rnd_12 over_rnd_13 over_rnd_14 over_rnd_15 over_rnd_16 over_rnd_17 over_rnd_18

lemma over_total_bounds:
  "total_bounds over_gdf = (rnd (- (11 / 10)), 0, rnd (- (9 / 10)), 5)"
  by (simp add: total_bounds_def over_gdf_def over_rnd)

lemma over_grid_size:
  "math_sqrt (fdiv (fmul (fsub (- (8106479329266893 / 9007199254740992)) (- (2476979795053773 / 2251799813685248))) (fsub 5 0)) 100) = Inr (7205759403792795 / 72057594037927936)"
  by (simp add: math_sqrt_def float_ops over_rnd)

lemma over_x_ranges:
  "arange (- (2476979795053773 / 2251799813685248)) (- (8106479329266893 / 9007199254740992)) (7205759403792795 / 72057594037927936) =
     Inr [- (2476979795053773 / 2251799813685248), - 1, - (2026619832316723 / 2251799813685248)]"
  by (simp add: arange_def Let_def float_ops over_rnd upt_3)

lemma over_y_ranges:
  "\<exists>l. arange 0 5 (7205759403792795 / 72057594037927936) = Inr (l @ [5516909543528859 / 1125899906842624])"
proof -
  have "\<exists>l. arange 0 5 (7205759403792795 / 72057594037927936) =
      Inr (l @ [fadd 0 (fmul (real 49) (fsub (fadd 0 (7205759403792795 / 72057594037927936)) 0))])"
    by (rule arange_last) (simp_all add: float_ops over_rnd)
  then show ?thesis by (simp add: float_ops over_rnd)
qed

text \<open>
  C5 (the code departs from it). The claim: the grid origins along an axis start at the
  minimum of the bounding box and stop at or before its maximum. The collection has two
  point features, at \<open>(-1.1, 0)\<close> and \<open>(-0.9, 5)\<close>, and is partitioned with its own bounding box.
  The width is the double \<open>0.20000000000000007\<close> and \<open>grid_size\<close> is \<open>0.10000000000000002\<close>; their
  quotient rounds to \<open>2.0000000000000004\<close>, so \<open>np.arange\<close> gives three origins along x: \<open>-1.1\<close>,
  \<open>-1\<close> and \<open>-0.8999999999999999\<close>, the last greater than the maximum \<open>-0.9\<close>. The cell of
  that origin in the last row has the second feature, and its chunk is persisted with a
  rectangle whose \<open>x_min\<close> is greater than its \<open>x_max\<close>.
\<close>

theorem origin_beyond_maximum:
  "total_bounds over_gdf = (rnd (- (11 / 10)), 0, rnd (- (9 / 10)), 5)
   \<and> (\<exists>ys dir md.
         grid (total_bounds over_gdf) =
           Inr (7205759403792795 / 72057594037927936,
                [rnd (- (11 / 10)), - 1, - (2026619832316723 / 2251799813685248)], ys)
       \<and> rnd (- (9 / 10)) < - (2026619832316723 / 2251799813685248)
       \<and> divide_data over_gdf [] ''t'' (total_bounds over_gdf) = Inr dir
       \<and> map_of dir ''t_metadata.json'' = Some (JSONDoc (JObject md))
       \<and> map_of md ''t_-0.900000_4.900000.geojson'' =
             Some (chunk_coords (- (2026619832316723 / 2251799813685248), 5516909543528859 / 1125899906842624,
                     rnd (- (9 / 10)), 5)))"
proof
  show "total_bounds over_gdf = (rnd (- (11 / 10)), 0, rnd (- (9 / 10)), 5)"
    by (rule over_total_bounds)
  let ?x_min = "- (2476979795053773 / 2251799813685248) :: real"
  let ?x_max = "- (8106479329266893 / 9007199254740992) :: real"
  let ?g = "7205759403792795 / 72057594037927936 :: real"
  let ?x = "- (2026619832316723 / 2251799813685248) :: real"
  let ?y = "5516909543528859 / 1125899906842624 :: real"
  from over_y_ranges obtain l where l: "arange 0 5 ?g = Inr (l @ [?y])" by blast
  have b: "total_bounds over_gdf = (?x_min, 0, ?x_max, 5)"
    by (simp add: over_total_bounds over_rnd)
  have g: "grid (?x_min, 0, ?x_max, 5) = Inr (?g, [?x_min, - 1] @ [?x], l @ [?y])"
    by (simp add: grid_def Let_def over_grid_size over_x_ranges l)
  have r: "cell_rect ?g ?x_max 5 ?x ?y = (?x, ?y, ?x_max, 5)"
    by (simp add: cell_rect_def float_ops over_rnd)
  have f: "cell_features over_gdf (cell_rect ?g ?x_max 5 ?x ?y) \<noteq> []"
    unfolding r
    by (simp add: cell_features_def over_gdf_def over_rnd box_of_def intersects_insert intersects_empty)
  have n: "chunk_name ''t'' ?x ?y = ''t_-0.900000_4.900000.geojson''"
    by (simp add: chunk_name_def fmt6_eval)
  from divide_data_last_cell [OF g f, of "[]" "''t''"] obtain dir md where
    d: "divide_data over_gdf [] ''t'' (?x_min, 0, ?x_max, 5) = Inr dir"
      "map_of dir (''t'' @ ''_metadata.json'') = Some (JSONDoc (JObject md))"
      "map_of md (chunk_name ''t'' ?x ?y) = Some (chunk_coords (cell_rect ?g ?x_max 5 ?x ?y))"
    by blast
  have "grid (total_bounds over_gdf) = Inr (?g, [rnd (- (11 / 10)), - 1, ?x], l @ [?y])"
    unfolding b using g by (simp add: over_rnd)
  moreover have "rnd (- (9 / 10)) < ?x" by (simp add: over_rnd)
  moreover have "divide_data over_gdf [] ''t'' (total_bounds over_gdf) = Inr dir"
    unfolding b by (rule d(1))
  moreover have "map_of dir ''t_metadata.json'' = Some (JSONDoc (JObject md))"
    using d(2) by simp
  moreover have "map_of md ''t_-0.900000_4.900000.geojson'' =
      Some (chunk_coords (?x, ?y, rnd (- (9 / 10)), 5))"
    using d(3) unfolding n r by (simp add: over_rnd)
  ultimately show "\<exists>ys dir md.
         grid (total_bounds over_gdf) = Inr (?g, [rnd (- (11 / 10)), - 1, ?x], ys)
       \<and> rnd (- (9 / 10)) < ?x
       \<and> divide_data over_gdf [] ''t'' (total_bounds over_gdf) = Inr dir
       \<and> map_of dir ''t_metadata.json'' = Some (JSONDoc (JObject md))
       \<and> map_of md ''t_-0.900000_4.900000.geojson'' =
             Some (chunk_coords (?x, ?y, rnd (- (9 / 10)), 5))"
    by blast
qed


section \<open>A gap between two cells\<close>

lemma gap_rnd_1: "rnd (1 / 2) = 1 / 2"
  using rnd_repr [where m = "4503599627370496" and k = 53] by simp

lemma gap_rnd_2: "rnd 9 = 9"
  using rnd_repr [where m = "5066549580791808" and k = 49] by simp

lemma gap_rnd_3: "rnd (9 / 2) = 9 / 2"
  using rnd_repr [where m = "5066549580791808" and k = 50] by simp

lemma gap_rnd_4: "rnd (9 / 200) = 3242591731706757 / 72057594037927936"
  using rnd_near [where x = "9 / 200" and m = "6485183463413514" and k = 57] by simp

lemma gap_rnd_5: "rnd (sqrt (3242591731706757 / 72057594037927936)) = 7642862007030927 / 36028797018963968"
  using rnd_sqrt_near [where c = "3242591731706757 / 72057594037927936" and m = "7642862007030927" and k = 55] by (simp add: power2_eq_square)

lemma gap_rnd_6: "rnd (18014398509481984 / 7642862007030927) = 41465180159673 / 17592186044416"
  using rnd_near [where x = "18014398509481984 / 7642862007030927" and m = "5307543060438144" and k = 51] by simp

lemma gap_rnd_7: "rnd (- (10371536502451057 / 36028797018963968)) = - (648221031403191 / 2251799813685248)"
  using rnd_tie [where x = "- (10371536502451057 / 36028797018963968)" and m = "- 5185768251225528" and k = 54] by simp

lemma gap_rnd_8: "rnd (477678875439433 / 2251799813685248) = 477678875439433 / 2251799813685248"
  using rnd_repr [where m = "7642862007030928" and k = 55] by simp

lemma gap_rnd_9: "rnd (36028797018963968 / 849206889670103) = 373186621437057 / 8796093022208"
  using rnd_near [where x = "36028797018963968 / 849206889670103" and m = "5970985942992912" and k = 47] by simp

lemma gap_rnd_10: "rnd (7642862007030927 / 36028797018963968) = 7642862007030927 / 36028797018963968"
  using rnd_repr [where m = "7642862007030927" and k = 55] by simp

lemma gap_rnd_11: "rnd (477678875439433 / 1125899906842624) = 477678875439433 / 1125899906842624"
  using rnd_repr [where m = "7642862007030928" and k = 54] by simp

lemma gap_rnd_12: "rnd (- (85271077981879 / 1125899906842624)) = - (85271077981879 / 1125899906842624)"
  using rnd_repr [where m = "- 5457348990840256" and k = 56] by simp

lemma gap_rnd_13: "rnd (- (2728674495420129 / 36028797018963968)) = - (2728674495420129 / 36028797018963968)"
  using rnd_repr [where m = "- 5457348990840258" and k = 56] by simp

lemma gap_rnd_14: "rnd (4914187511610799 / 36028797018963968) = 4914187511610799 / 36028797018963968"
  using rnd_repr [where m = "4914187511610799" and k = 55] by simp

lemmas gap_rnd = gap_rnd_1 gap_rnd_2 gap_rnd_3 gap_rnd_4 gap_rnd_5 gap_rnd_6 gap_rnd_7 gap_rnd_8 gap_rnd_9 gap_rnd_10 gap_rnd_11 gap_rnd_12 gap_rnd_13 gap_rnd_14

lemma gap_total_bounds: "total_bounds gap_gdf = (- (1 / 2), 0, 0, 9)"
  by (simp add: total_bounds_def gap_gdf_def)

lemma gap_grid_size:
  "math_sqrt (fdiv (fmul (fsub 0 (- (1 / 2))) (fsub 9 0)) 100) = Inr (7642862007030927 / 36028797018963968)"
  by (simp add: math_sqrt_def float_ops gap_rnd)

lemma gap_x_ranges:
  "arange (- (1 / 2)) 0 (7642862007030927 / 36028797018963968) =
     Inr [- (1 / 2), - (648221031403191 / 2251799813685248), - (85271077981879 / 1125899906842624)]"
  by (simp add: arange_def Let_def float_ops gap_rnd upt_3)

lemma point_not_in_cell:
  assumes "px < min x (min (fadd x g) x_max) \<or> max x (min (fadd x g) x_max) < px"
  shows "(px, py) \<notin> box_of (cell_rect g x_max y_max x y)"
  using assms by (auto simp: cell_rect_def box_of_def box_def)

text \<open>
  C4 (the code departs from it). The claim: the cell rectangles cover the bounding box with
  no gaps. The collection has three point features and is partitioned with its own bounding
  box \<open>(-0.5, 0, 0, 9)\<close>. \<open>grid_size\<close> is \<open>0.21213203435596426\<close> and \<open>np.arange\<close> gives three
  origins along x: \<open>-0.5\<close>, \<open>-0.2878679656440357\<close> and \<open>-0.07573593128807143\<close>. The cells of the
  second origin end at the double sum of that origin and \<open>grid_size\<close>, which is
  \<open>-0.07573593128807146\<close>, below the third origin. The double \<open>-0.07573593128807145\<close> lies
  between the two: the third feature, at that x, is inside the bounding box, in the rectangle
  of no cell, and in no chunk after the call.
\<close>

theorem feature_between_cells_is_in_no_chunk:
  "total_bounds gap_gdf = (- (1 / 2), 0, 0, 9)
   \<and> geometry (gap_gdf ! 2) = {(- (5457348990840257 / 72057594037927936), 1)}
   \<and> rnd (- (5457348990840257 / 72057594037927936)) = - (5457348990840257 / 72057594037927936)
   \<and> (- (5457348990840257 / 72057594037927936), 1) \<in> box_of (total_bounds gap_gdf)
   \<and> (\<exists>ys dir.
         grid (total_bounds gap_gdf) =
           Inr (7642862007030927 / 36028797018963968,
                [- (1 / 2), - (648221031403191 / 2251799813685248), - (85271077981879 / 1125899906842624)], ys)
       \<and> min (fadd (- (648221031403191 / 2251799813685248)) (7642862007030927 / 36028797018963968)) 0 < - (5457348990840257 / 72057594037927936)
       \<and> (- (5457348990840257 / 72057594037927936) :: real) < - (85271077981879 / 1125899906842624)
       \<and> \<not> list_ex (\<lambda>(x, y). (- (5457348990840257 / 72057594037927936), 1) \<in> box_of (cell_rect (7642862007030927 / 36028797018963968) 0 9 x y))
             (List.product [- (1 / 2), - (648221031403191 / 2251799813685248), - (85271077981879 / 1125899906842624)] ys)
       \<and> divide_data gap_gdf [] ''t'' (total_bounds gap_gdf) = Inr dir
       \<and> gap_gdf ! 2 \<notin> set (stored_rows dir))"
proof (intro conjI)
  let ?g = "7642862007030927 / 36028797018963968 :: real"
  let ?x1 = "- (648221031403191 / 2251799813685248) :: real"
  let ?x2 = "- (85271077981879 / 1125899906842624) :: real"
  let ?p = "- (5457348990840257 / 72057594037927936) :: real"
  show "total_bounds gap_gdf = (- (1 / 2), 0, 0, 9)" by (rule gap_total_bounds)
  show "geometry (gap_gdf ! 2) = {(?p, 1)}" by (simp add: gap_gdf_def)
  show "rnd ?p = ?p"
    using rnd_repr [where m = "- 5457348990840257" and k = 56] by simp
  show "(?p, 1) \<in> box_of (total_bounds gap_gdf)"
    unfolding gap_total_bounds by (simp add: box_of_def box_def)
  have "?g \<noteq> (0::real)" by simp
  from arange_returns [OF this] obtain ys where ys: "arange 0 9 ?g = Inr ys" by blast
  have g: "grid (- (1 / 2), 0, 0, 9) = Inr (?g, [- (1 / 2), ?x1, ?x2], ys)"
    by (simp add: grid_def Let_def gap_grid_size gap_x_ranges ys)
  have e1: "min (fadd ?x1 ?g) 0 < ?p" by (simp add: float_ops gap_rnd)
  have e2: "?p < ?x2" by simp
  have out: "(?p, py) \<notin> box_of (cell_rect ?g 0 9 x y)"
    if "x \<in> set [- (1 / 2), ?x1, ?x2]" for x y py
  proof (rule point_not_in_cell)
    from that consider "x = - (1 / 2)" | "x = ?x1" | "x = ?x2" by auto
    then show "?p < min x (min (fadd x ?g) 0) \<or> max x (min (fadd x ?g) 0) < ?p"
      by cases (simp_all add: float_ops gap_rnd)
  qed
  have cells: "\<not> list_ex (\<lambda>(x, y). (?p, 1) \<in> box_of (cell_rect ?g 0 9 x y))
      (List.product [- (1 / 2), ?x1, ?x2] ys)"
    unfolding list_ex_iff using out by fastforce
  obtain dir where dir: "divide_data gap_gdf [] ''t'' (- (1 / 2), 0, 0, 9) = Inr dir"
    by (simp add: divide_data_def g Let_def)
  have stored: "gap_gdf ! 2 \<notin> set (stored_rows dir)"
  proof
    assume "gap_gdf ! 2 \<in> set (stored_rows dir)"
    from stored_rows_in_cells [OF g dir this] obtain x y where
      "x \<in> set [- (1 / 2), ?x1, ?x2]"
      "intersects (geometry (gap_gdf ! 2)) (box_of (cell_rect ?g 0 9 x y))"
      by blast
    with out [of x 1 y] show False
      by (simp add: gap_gdf_def intersects_def)
  qed
  from g e1 e2 cells dir stored
  show "\<exists>ys dir.
         grid (total_bounds gap_gdf) = Inr (?g, [- (1 / 2), ?x1, ?x2], ys)
       \<and> min (fadd ?x1 ?g) 0 < ?p
       \<and> ?p < ?x2
       \<and> \<not> list_ex (\<lambda>(x, y). (?p, 1) \<in> box_of (cell_rect ?g 0 9 x y))
             (List.product [- (1 / 2), ?x1, ?x2] ys)
       \<and> divide_data gap_gdf [] ''t'' (total_bounds gap_gdf) = Inr dir
       \<and> gap_gdf ! 2 \<notin> set (stored_rows dir)"
    unfolding gap_total_bounds by blast
qed


end
